theory Spec2Isabelle
  imports Complex_Main "HOL-Library.Multiset"
begin

section \<open>Python strings\<close>

text \<open>
  A Python \<^verbatim>\<open>str\<close> is a sequence of code points. It is modelled as a HOL \<open>string\<close>, a
  list of characters read as the code points 0 to 255; \<^verbatim>\<open>len\<close> is \<open>length\<close> and a slice
  \<^verbatim>\<open>s[:n]\<close> is \<open>take n s\<close>. The three character tables of CPython that the program uses
  (\<^verbatim>\<open>str.isalnum\<close>, \<^verbatim>\<open>str.lower\<close>, \<^verbatim>\<open>str.isspace\<close>) are written out on that range. All
  three are Unicode-aware: \<^verbatim>\<open>'\xe9'.isalnum()\<close> is true.

  Strings with a code point above 255 are outside this model, and nothing below speaks
  of them. There \<^verbatim>\<open>str.lower\<close> is not even a map over the characters: the code point
  U+0130 becomes the two code points U+0069 U+0307, of which the second is not
  alphanumeric.
\<close>

definition code :: "char \<Rightarrow> nat" where
  "code c = of_char c"

definition isascii :: "char \<Rightarrow> bool" where
  "isascii c = (code c < 128)"

definition isalnum :: "char \<Rightarrow> bool" where
  "isalnum c =
     (let n = code c in
        (48 \<le> n \<and> n \<le> 57) \<or> (65 \<le> n \<and> n \<le> 90) \<or> (97 \<le> n \<and> n \<le> 122) \<or>
        n = 170 \<or> n = 178 \<or> n = 179 \<or> n = 181 \<or> n = 185 \<or> n = 186 \<or>
        n = 188 \<or> n = 189 \<or> n = 190 \<or>
        (192 \<le> n \<and> n \<le> 214) \<or> (216 \<le> n \<and> n \<le> 246) \<or> 248 \<le> n)"

definition lower_char :: "char \<Rightarrow> char" where
  "lower_char c =
     (let n = code c in
        if (65 \<le> n \<and> n \<le> 90) \<or> (192 \<le> n \<and> n \<le> 222 \<and> n \<noteq> 215)
        then char_of (n + 32) else c)"

definition lower :: "string \<Rightarrow> string" where
  "lower s = map lower_char s"

definition isspace :: "char \<Rightarrow> bool" where
  "isspace c =
     (let n = code c in
        (9 \<le> n \<and> n \<le> 13) \<or> (28 \<le> n \<and> n \<le> 32) \<or> n = 133 \<or> n = 160)"

text \<open>\<^verbatim>\<open>s.strip(chars)\<close> removes from both ends the characters that satisfy \<open>P\<close>.\<close>

definition strip_where :: "(char \<Rightarrow> bool) \<Rightarrow> string \<Rightarrow> string" where
  "strip_where P s = rev (dropWhile P (rev (dropWhile P s)))"

text \<open>\<^verbatim>\<open>s.strip()\<close>: white space is removed.\<close>

definition strip :: "string \<Rightarrow> string" where
  "strip s = strip_where isspace s"

fun startswith :: "string \<Rightarrow> string \<Rightarrow> bool" where
  "startswith s [] = True"
| "startswith [] (p # ps) = False"
| "startswith (c # cs) (p # ps) = (c = p \<and> startswith cs ps)"

section \<open>The key sanitizer\<close>

text \<open>
  \<^verbatim>\<open>
  def sanitize_for_filename(text):
      return "".join(c if c.isalnum() or c in ['_', '-'] else '_'
                     for c in text).strip('_').lower()[:50]
  \<close>
\<close>

definition sanitize_for_filename :: "string \<Rightarrow> string" where
  "sanitize_for_filename txt =
     take 50
       (lower
          (strip_where (\<lambda>c. c = CHR ''_'')
             (map (\<lambda>c. if isalnum c \<or> c \<in> set [CHR ''_'', CHR ''-''] then c else CHR ''_'') txt)))"



section \<open>Values, records and frames\<close>

text \<open>
  The values a record holds, as \<^verbatim>\<open>json\<close> reads and writes them: \<^verbatim>\<open>None\<close>, booleans,
  integers, floats, strings, lists and dictionaries (a dictionary keeps the order of its
  keys). In a frame \<open>PNone\<close> is the missing value: pandas writes a missing cell as
  \<^verbatim>\<open>None\<close> or as \<^verbatim>\<open>NaN\<close>, depending on the type of the column, and what \<^verbatim>\<open>agent.py\<close>
  decides on a cell it decides through \<^verbatim>\<open>pd.notna\<close> and \<^verbatim>\<open>fillna\<close>, which do not tell
  the two apart.
\<close>

datatype pyval =
    PNone
  | PBool bool
  | PInt int
  | PFloat real
  | PStr string
  | PList "pyval list"
  | PDict "(string \<times> pyval) list"

type_synonym row = "(string \<times> pyval) list"

text \<open>The exceptions the program meets; \<open>ClientError\<close> is the one of \<^verbatim>\<open>botocore\<close>.\<close>

datatype exn =
    ClientError
  | KeyError
  | IndexError
  | TypeError
  | ValueError
  | AttributeError
  | OSError
  | JSONDecodeError
  | UnicodeEncodeError
  | re_error

text \<open>
  A \<^verbatim>\<open>pandas.DataFrame\<close>: the column labels and the rows in order, each row holding one
  cell per column. \<^verbatim>\<open>df.empty\<close> holds when either axis has length 0, and
  \<^verbatim>\<open>pd.DataFrame()\<close> is the frame with no column and no row.
\<close>

record dataframe =
  columns :: "string list"
  rows :: "row list"

definition empty_frame :: dataframe where
  "empty_frame = \<lparr>columns = [], rows = []\<rparr>"

definition is_empty :: "dataframe \<Rightarrow> bool" where
  "is_empty df = (columns df = [] \<or> rows df = [])"

text \<open>\<^verbatim>\<open>entry[k]\<close> for a column the frame has; a cell that is missing reads as \<^verbatim>\<open>NaN\<close>.\<close>

definition cell :: "row \<Rightarrow> string \<Rightarrow> pyval" where
  "cell entry k = (case map_of entry k of Some v \<Rightarrow> v | None \<Rightarrow> PNone)"

text \<open>
  Python integers are unbounded. pandas holds a column of integers as \<^verbatim>\<open>int64\<close>, which
  it can do when every one of them is a 64-bit integer.
\<close>

definition int64 :: "int \<Rightarrow> bool" where
  "int64 k = (- (2 ^ 63) \<le> k \<and> k < 2 ^ 63)"

definition is_int64 :: "pyval \<Rightarrow> bool" where
  "is_int64 v = (case v of PInt k \<Rightarrow> int64 k | _ \<Rightarrow> False)"

text \<open>The integers of a record are 64-bit integers.\<close>

definition int64_row :: "row \<Rightarrow> bool" where
  "int64_row entry = list_all (\<lambda>v. case v of PInt k \<Rightarrow> int64 k | _ \<Rightarrow> True) (map snd entry)"

text \<open>
  The field sets of the two kinds of record, read off the dictionaries that
  \<^verbatim>\<open>fetch_github_data\<close> and \<^verbatim>\<open>fetch_reddit_data\<close> of \<^verbatim>\<open>agent.py\<close> build.
\<close>

datatype ctype = TInt | TFloat | TStr | TOptStr | TStrList

fun has_type :: "pyval \<Rightarrow> ctype \<Rightarrow> bool" where
  "has_type (PInt n) TInt = True"
| "has_type (PFloat x) TFloat = True"
| "has_type (PStr s) TStr = True"
| "has_type (PStr s) TOptStr = True"
| "has_type PNone TOptStr = True"
| "has_type (PList vs) TStrList = list_all (\<lambda>v. case v of PStr s \<Rightarrow> True | _ \<Rightarrow> False) vs"
| "has_type v t = False"

definition github_schema :: "(string \<times> ctype) list" where
  "github_schema =
     [(''id'', TInt), (''name'', TStr), (''description'', TOptStr), (''stars'', TInt),
      (''forks'', TInt), (''language'', TOptStr), (''url'', TStr), (''created_at'', TOptStr),
      (''updated_at'', TOptStr), (''topics'', TStrList), (''readme_content'', TStr)]"

definition reddit_schema :: "(string \<times> ctype) list" where
  "reddit_schema =
     [(''id'', TStr), (''title'', TStr), (''score'', TInt), (''url'', TStr),
      (''permalink'', TStr), (''selftext'', TStr), (''created_utc'', TFloat),
      (''num_comments_total'', TInt), (''author'', TStr), (''flair'', TOptStr),
      (''comments_sample'', TStr)]"

definition conforms :: "row \<Rightarrow> (string \<times> ctype) list \<Rightarrow> bool" where
  "conforms entry schema =
     (map fst entry = map fst schema \<and> list_all2 has_type (map snd entry) (map snd schema))"

section \<open>Record normalization\<close>

text \<open>
  What the program reads of one \<^verbatim>\<open>PyGithub\<close> repository. \<open>get_readme\<close> is the decoded
  README, or the exception that fetching or decoding it raised.
\<close>

record repository =
  repo_id :: int
  full_name :: string
  description :: "string option"
  stargazers_count :: int
  forks_count :: int
  language :: "string option"
  html_url :: string
  created_at :: "string option"
  updated_at :: "string option"
  get_topics :: "string list"
  get_readme :: "exn + string"

definition opt_str :: "string option \<Rightarrow> pyval" where
  "opt_str x = (case x of None \<Rightarrow> PNone | Some s \<Rightarrow> PStr s)"

text \<open>
  The body of the loop of \<^verbatim>\<open>fetch_github_data\<close> in \<^verbatim>\<open>agent.py\<close>:
  \<^verbatim>\<open>
  readme_content = ""
  try:
      readme_file = repo.get_readme()
      readme_content = readme_file.decoded_content.decode('utf-8', errors='replace')
  except GithubException: pass
  except Exception as e_readme: print(...)
  repos_data.append({"id": repo.id, "name": repo.full_name, ...,
      "topics": repo.get_topics(),
      # Limit README size for practical reasons
      "readme_content": readme_content[:200000]})
  \<close>
\<close>

definition readme_of :: "repository \<Rightarrow> string" where
  "readme_of repo = (case get_readme repo of Inr content \<Rightarrow> content | Inl e \<Rightarrow> [])"

definition github_record :: "repository \<Rightarrow> row" where
  "github_record repo =
     (let readme_content = readme_of repo in
      [(''id'', PInt (repo_id repo)),
       (''name'', PStr (full_name repo)),
       (''description'', opt_str (description repo)),
       (''stars'', PInt (stargazers_count repo)),
       (''forks'', PInt (forks_count repo)),
       (''language'', opt_str (language repo)),
       (''url'', PStr (html_url repo)),
       (''created_at'', opt_str (created_at repo)),
       (''updated_at'', opt_str (updated_at repo)),
       (''topics'', PList (map PStr (get_topics repo))),
       (''readme_content'', PStr (take 200000 readme_content))])"

text \<open>
  The same loop body in \<^verbatim>\<open>main.py\<close>:
  \<^verbatim>\<open>
  repos_data.append({"name": repo.full_name, "description": repo.description,
      "stars": repo.stargazers_count, "forks": repo.forks_count,
      "language": repo.language, "url": repo.html_url,
      "readme_content": readme_content, "topics": repo.get_topics()})
  \<close>
\<close>

definition github_record_main :: "repository \<Rightarrow> row" where
  "github_record_main repo =
     (let readme_content = readme_of repo in
      [(''name'', PStr (full_name repo)),
       (''description'', opt_str (description repo)),
       (''stars'', PInt (stargazers_count repo)),
       (''forks'', PInt (forks_count repo)),
       (''language'', opt_str (language repo)),
       (''url'', PStr (html_url repo)),
       (''readme_content'', PStr readme_content),
       (''topics'', PList (map PStr (get_topics repo)))])"

text \<open>
  What the program reads of one \<^verbatim>\<open>praw\<close> submission. \<open>top_comments\<close> is the list
  \<^verbatim>\<open>submission.comments.list()\<close> (the body of each comment, \<open>None\<close> for an object that has
  none), or the exception that fetching the comments raised.
\<close>

record submission =
  submission_id :: string
  title :: string
  score :: int
  url :: string
  permalink :: string
  selftext :: string
  created_utc :: real
  num_comments :: int
  author :: "string option"
  link_flair_text :: "string option"
  top_comments :: "exn + string option list"

fun join :: "string \<Rightarrow> string list \<Rightarrow> string" where
  "join sep [] = []"
| "join sep [x] = x"
| "join sep (x # y # ys) = x @ sep @ join sep (y # ys)"

text \<open>
  The body of the loop of \<^verbatim>\<open>fetch_reddit_data\<close> in \<^verbatim>\<open>agent.py\<close>:
  \<^verbatim>\<open>
  comments_sample = []
  try:
      submission.comments.replace_more(limit=0)
      for top_level_comment in submission.comments.list()[:3]:
          if hasattr(top_level_comment, 'body') and top_level_comment.body != '[deleted]' \
                  and top_level_comment.body != '[removed]':
              comments_sample.append(top_level_comment.body[:500])
  except Exception as e_comm: print(...)
  posts_data.append({"id": submission.id, "title": submission.title, ...,
      "author": submission.author.name if submission.author else "[deleted]",
      "flair": submission.link_flair_text,
      "comments_sample": "\n---\n".join(comments_sample)})
  \<close>
\<close>

definition comments_sample_of :: "submission \<Rightarrow> string list" where
  "comments_sample_of sub =
     (case top_comments sub of
        Inl e \<Rightarrow> []
      | Inr cs \<Rightarrow>
          concat (map (\<lambda>c. case c of
                             None \<Rightarrow> []
                           | Some body \<Rightarrow>
                               if body \<noteq> ''[deleted]'' \<and> body \<noteq> ''[removed]''
                               then [take 500 body] else [])
                      (take 3 cs)))"

definition reddit_record :: "submission \<Rightarrow> row" where
  "reddit_record sub =
     [(''id'', PStr (submission_id sub)),
      (''title'', PStr (title sub)),
      (''score'', PInt (score sub)),
      (''url'', PStr (url sub)),
      (''permalink'', PStr (''https://www.reddit.com'' @ permalink sub)),
      (''selftext'', PStr (selftext sub)),
      (''created_utc'', PFloat (created_utc sub)),
      (''num_comments_total'', PInt (num_comments sub)),
      (''author'', PStr (case author sub of Some name \<Rightarrow> name | None \<Rightarrow> ''[deleted]'')),
      (''flair'', opt_str (link_flair_text sub)),
      (''comments_sample'', PStr (join [CHR 0x0A, CHR ''-'', CHR ''-'', CHR ''-'', CHR 0x0A]
                                      (comments_sample_of sub)))]"

text \<open>The length of the README field of a record (\<open>None\<close> when it has no such text field).\<close>

definition readme_length :: "row \<Rightarrow> nat option" where
  "readme_length entry =
     (case map_of entry ''readme_content'' of Some (PStr s) \<Rightarrow> Some (length s) | _ \<Rightarrow> None)"

section \<open>The question-answering adapter\<close>









section \<open>Context selection\<close>

text \<open>
  The \<^verbatim>\<open>ask\<close> command of \<^verbatim>\<open>agent.py\<close> picks the context from one entry of the frame:
  \<^verbatim>\<open>
  context_text = ""
  if 'readme_content' in entry and pd.notna(entry['readme_content']) and entry['readme_content'].strip():
      context_text = entry['readme_content']
  elif 'selftext' in entry and pd.notna(entry['selftext']) and entry['selftext'].strip():
      context_text = entry['selftext']
  elif 'description' in entry and pd.notna(entry['description']) and entry['description'].strip():
      context_text = entry['description']
  elif 'title' in entry and pd.notna(entry['title']) and entry['title'].strip():
      context_text = entry['title']
  if context_text:
      ask_ai_question(question, context_text)
  else:
      print(f"No suitable text context found in entry ...")
  \<close>
  One test of the chain: the field is there, is not missing and is not blank. A cell
  that is neither a string nor missing has no \<^verbatim>\<open>strip\<close>, and the test raises.
\<close>

definition candidate :: "row \<Rightarrow> string \<Rightarrow> exn + string option" where
  "candidate entry k =
     (case map_of entry k of
        None \<Rightarrow> Inr None
      | Some PNone \<Rightarrow> Inr None
      | Some (PStr s) \<Rightarrow> Inr (if strip s \<noteq> [] then Some s else None)
      | Some v \<Rightarrow> Inl AttributeError)"

fun first_candidate :: "row \<Rightarrow> string list \<Rightarrow> exn + string" where
  "first_candidate entry [] = Inr []"
| "first_candidate entry (k # ks) =
     (case candidate entry k of
        Inl e \<Rightarrow> Inl e
      | Inr (Some s) \<Rightarrow> Inr s
      | Inr None \<Rightarrow> first_candidate entry ks)"

definition context_text_of :: "row \<Rightarrow> exn + string" where
  "context_text_of entry =
     first_candidate entry [''readme_content'', ''selftext'', ''description'', ''title'']"

text \<open>The context handed to the adapter, \<open>None\<close> when the command reports that there is none.\<close>

definition select_context :: "row \<Rightarrow> exn + string option" where
  "select_context entry =
     (case context_text_of entry of
        Inl e \<Rightarrow> Inl e
      | Inr context_text \<Rightarrow> Inr (if context_text \<noteq> [] then Some context_text else None))"

text \<open>
  The selection as the specification words it: the first candidate that is not blank, in
  the order README, description, name for a repository record and body, title for a
  discussion post.
\<close>

fun first_nonblank :: "pyval list \<Rightarrow> string option" where
  "first_nonblank [] = None"
| "first_nonblank (PStr s # vs) = (if strip s \<noteq> [] then Some s else first_nonblank vs)"
| "first_nonblank (v # vs) = first_nonblank vs"

definition spec_select_context :: "string \<Rightarrow> row \<Rightarrow> string option" where
  "spec_select_context source_type entry =
     (if source_type = ''github''
      then first_nonblank [cell entry ''readme_content'', cell entry ''description'', cell entry ''name'']
      else first_nonblank [cell entry ''selftext'', cell entry ''title''])"

section \<open>Libraries\<close>

text \<open>
  The program calls \<^verbatim>\<open>json\<close>, \<^verbatim>\<open>re\<close> and \<^verbatim>\<open>pandas\<close>. What the theorems need of
  them is written out below; the rest is taken as given, in one record:
  \<^item> \<open>json_encode v\<close> is the text \<^verbatim>\<open>json\<close> produces for \<open>v\<close> with
    \<^verbatim>\<open>ensure_ascii=False, indent=4\<close>, chunk after chunk, and the exception, if any, that
    stops the encoder after that much text;
  \<^item> \<open>json_loads\<close> is \<^verbatim>\<open>json.loads\<close>;
  \<^item> \<open>DataFrame_other\<close> is \<^verbatim>\<open>pd.DataFrame\<close> on a value other than the two kinds
    written out below (a list of records whose cells pandas keeps as they are, and a
    list of integers);
  \<^item> \<open>nlargest_other n c df\<close> is \<^verbatim>\<open>df.nlargest(n, c)\<close> for a column \<open>c\<close> that is not
    made of 64-bit integers;
  \<^item> \<open>re_findall pat s\<close> is \<^verbatim>\<open>len(re.findall(pat, s))\<close> for a pattern with special
    characters other than the dot (an invalid pattern raises);
  \<^item> \<open>sort_values\<close> is \<^verbatim>\<open>sort_values(by='mentions', ascending=False)\<close> on rows paired
    with their count. Its default algorithm is \<^verbatim>\<open>quicksort\<close>, which pandas documents as
    not stable: the order it gives to rows of equal count is not fixed by the program.
\<close>

record libs =
  json_encode :: "pyval \<Rightarrow> string \<times> exn option"
  json_loads :: "string \<Rightarrow> exn + pyval"
  DataFrame_other :: "pyval \<Rightarrow> exn + dataframe"
  nlargest_other :: "nat \<Rightarrow> string \<Rightarrow> dataframe \<Rightarrow> exn + row list"
  re_findall :: "string \<Rightarrow> string \<Rightarrow> exn + nat"
  sort_values :: "(row \<times> nat) list \<Rightarrow> (row \<times> nat) list"

text \<open>What is assumed of \<open>sort_values\<close>: a rearrangement in descending order of the count.\<close>

definition sorts_descending :: "((row \<times> nat) list \<Rightarrow> (row \<times> nat) list) \<Rightarrow> bool" where
  "sorts_descending srt =
     (\<forall>xs. mset (srt xs) = mset xs \<and> sorted_wrt (\<lambda>a b. snd b \<le> snd a) (srt xs))"

text \<open>The first exception of a list of results, or all the values.\<close>

fun collect :: "(exn + 'a) list \<Rightarrow> exn + 'a list" where
  "collect [] = Inr []"
| "collect (x # xs) =
     (case x of
        Inl e \<Rightarrow> Inl e
      | Inr v \<Rightarrow> (case collect xs of Inl e \<Rightarrow> Inl e | Inr vs \<Rightarrow> Inr (v # vs)))"

section \<open>The analytics engine\<close>

subsection \<open>Ranking\<close>

text \<open>
  \<^verbatim>\<open>df.nlargest(n, c)\<close>, with the default \<^verbatim>\<open>keep='first'\<close>: the first \<open>n\<close> rows in
  descending order of column \<open>c\<close>, rows of equal value in their original order. This
  is written out for a column of 64-bit integers, which is what the normalizer writes
  into the ranking columns and what pandas holds as \<^verbatim>\<open>int64\<close>. For any other column
  (floats, missing values, which pandas ranks last, or an integer beyond 64 bits, which
  makes the column one of objects that pandas refuses to rank) the result is the
  library's, \<open>nlargest_other\<close>.
\<close>

fun insert_desc :: "('a \<Rightarrow> int) \<Rightarrow> 'a \<Rightarrow> 'a list \<Rightarrow> 'a list" where
  "insert_desc f x [] = [x]"
| "insert_desc f x (y # ys) = (if f y \<le> f x then x # y # ys else y # insert_desc f x ys)"

definition sort_desc :: "('a \<Rightarrow> int) \<Rightarrow> 'a list \<Rightarrow> 'a list" where
  "sort_desc f xs = foldr (insert_desc f) xs []"

definition int_of :: "pyval \<Rightarrow> int" where
  "int_of v = (case v of PInt k \<Rightarrow> k | _ \<Rightarrow> 0)"

definition nlargest :: "libs \<Rightarrow> nat \<Rightarrow> string \<Rightarrow> dataframe \<Rightarrow> exn + row list" where
  "nlargest L n c df =
     (if c \<notin> set (columns df) then Inl KeyError
      else if list_all (\<lambda>r. is_int64 (cell r c)) (rows df)
      then Inr (take n (sort_desc (\<lambda>r. int_of (cell r c)) (rows df)))
      else nlargest_other L n c df)"

subsection \<open>Counting mentions\<close>

text \<open>
  \<^verbatim>\<open>Series.str.count(pat)\<close> counts the matches of \<open>pat\<close> as a regular expression:
  \<^verbatim>\<open>len(re.findall(pat, s))\<close>. For a pattern made of ordinary characters and dots the
  matches are found here: a dot matches any character but the newline, the text is
  scanned from the left and a match is not looked for inside the previous one.
\<close>

definition regex_special :: "char \<Rightarrow> bool" where
  "regex_special c = (c \<in> set (''.^$*+?{}[]|()'' @ [CHR 0x5C]))"

fun match_here :: "string \<Rightarrow> string \<Rightarrow> bool" where
  "match_here [] s = True"
| "match_here (p # ps) [] = False"
| "match_here (p # ps) (c # cs) =
     ((if p = CHR ''.'' then c \<noteq> CHR 0x0A else p = c) \<and> match_here ps cs)"

text \<open>\<open>skip\<close> is the number of characters still covered by the previous match.\<close>

fun count_from :: "(string \<Rightarrow> bool) \<Rightarrow> nat \<Rightarrow> nat \<Rightarrow> string \<Rightarrow> nat" where
  "count_from here width skip [] = 0"
| "count_from here width skip (c # cs) =
     (if 0 < skip then count_from here width (skip - 1) cs
      else if here (c # cs) then 1 + count_from here width (width - 1) cs
      else count_from here width 0 cs)"

definition count_matches :: "string \<Rightarrow> string \<Rightarrow> nat" where
  "count_matches pat s =
     (if pat = [] then length s + 1 else count_from (match_here pat) (length pat) 0 s)"

definition str_count :: "libs \<Rightarrow> string \<Rightarrow> string \<Rightarrow> exn + nat" where
  "str_count L pat s =
     (if list_all (\<lambda>c. \<not> regex_special c \<or> c = CHR ''.'') pat
      then Inr (count_matches pat s)
      else re_findall L pat s)"

text \<open>
  The count the specification speaks of: the occurrences of the term itself in the text
  (\<^verbatim>\<open>str.count\<close>), both lower-cased.
\<close>

definition occurrences :: "string \<Rightarrow> string \<Rightarrow> nat" where
  "occurrences term s =
     (if term = [] then length s + 1
      else count_from (\<lambda>t. startswith t term) (length term) 0 s)"

definition spec_mentions :: "string \<Rightarrow> string \<Rightarrow> nat" where
  "spec_mentions term s = occurrences (lower term) (lower s)"

text \<open>
  One operand of \<^verbatim>\<open>df[c].fillna('') + ' ' + ...\<close>: a missing cell reads as the empty
  string, and a cell that is not a string cannot be added to one.
\<close>

definition fillna_text :: "pyval \<Rightarrow> exn + string" where
  "fillna_text v = (case v of PNone \<Rightarrow> Inr [] | PStr s \<Rightarrow> Inr s | _ \<Rightarrow> Inl TypeError)"

definition text_for_search :: "row \<Rightarrow> string list \<Rightarrow> exn + string" where
  "text_for_search entry cols =
     (case collect (map (\<lambda>c. fillna_text (cell entry c)) cols) of
        Inl e \<Rightarrow> Inl e
      | Inr parts \<Rightarrow> Inr (join '' '' parts))"

text \<open>
  \<^verbatim>\<open>
  df['text_for_search'] = df['description'].fillna('') + ' ' + df['readme_content'].fillna('')
  df['mentions'] = df['text_for_search'].str.lower().str.count(library_name.lower())
  \<close>
  Every row of the frame, with its count.
\<close>

definition mentions_of_row :: "libs \<Rightarrow> string list \<Rightarrow> string \<Rightarrow> row \<Rightarrow> exn + row \<times> nat" where
  "mentions_of_row L cols library_name entry =
     (case text_for_search entry cols of
        Inl e \<Rightarrow> Inl e
      | Inr t \<Rightarrow>
          (case str_count L (lower library_name) (lower t) of
             Inl e \<Rightarrow> Inl e
           | Inr n \<Rightarrow> Inr (entry, n)))"

definition mention_counts :: "libs \<Rightarrow> dataframe \<Rightarrow> string list \<Rightarrow> string \<Rightarrow> exn + (row \<times> nat) list" where
  "mention_counts L df cols library_name =
     (if \<not> set cols \<subseteq> set (columns df) then Inl KeyError
      else collect (map (mentions_of_row L cols library_name) (rows df)))"

text \<open>
  \<^verbatim>\<open>
  mentions_df = df[df['mentions'] > 0].sort_values(by='mentions', ascending=False)
  if not mentions_df.empty:
      for _, row in mentions_df.head(5).iterrows():
          print(f"- {row.get('name', 'N/A')} (Mentions: {row.get('mentions', 0)})")
  \<close>
  The rows that are printed, each with its count.
\<close>

definition mention_report :: "libs \<Rightarrow> dataframe \<Rightarrow> string list \<Rightarrow> string \<Rightarrow> exn + (row \<times> nat) list" where
  "mention_report L df cols library_name =
     (case mention_counts L df cols library_name of
        Inl e \<Rightarrow> Inl e
      | Inr counted \<Rightarrow> Inr (take 5 (sort_values L (filter (\<lambda>x. 0 < snd x) counted))))"

subsection \<open>The report\<close>

text \<open>
  What \<^verbatim>\<open>analyze_data\<close> prints: the rows of the ranking and the rows of the mention
  report, each \<open>None\<close> when that part of the report is not printed.
\<close>

record report =
  ranking :: "row list option"
  mentioning :: "(row \<times> nat) list option"

definition no_report :: report where
  "no_report = \<lparr>ranking = None, mentioning = None\<rparr>"

text \<open>\<^verbatim>\<open>if 'stars' in df.columns: ... df.nlargest(5, 'stars') ... else: print(...)\<close>\<close>

definition ranking_part :: "libs \<Rightarrow> dataframe \<Rightarrow> string \<Rightarrow> exn + row list option" where
  "ranking_part L df c =
     (if c \<in> set (columns df)
      then (case nlargest L 5 c df of Inl e \<Rightarrow> Inl e | Inr best \<Rightarrow> Inr (Some best))
      else Inr None)"

text \<open>\<^verbatim>\<open>if library_name: ...\<close>: neither \<^verbatim>\<open>None\<close> nor the empty string.\<close>

definition mention_part ::
  "libs \<Rightarrow> dataframe \<Rightarrow> string list \<Rightarrow> string option \<Rightarrow> exn + (row \<times> nat) list option" where
  "mention_part L df cols library_name =
     (case library_name of
        None \<Rightarrow> Inr None
      | Some name \<Rightarrow>
          if name = [] then Inr None
          else (case mention_report L df cols name of
                  Inl e \<Rightarrow> Inl e
                | Inr ms \<Rightarrow> Inr (Some ms)))"

definition both_parts ::
  "exn + row list option \<Rightarrow> exn + (row \<times> nat) list option \<Rightarrow> exn + report" where
  "both_parts rk ms =
     (case rk of
        Inl e \<Rightarrow> Inl e
      | Inr t \<Rightarrow> (case ms of Inl e \<Rightarrow> Inl e | Inr m \<Rightarrow> Inr \<lparr>ranking = t, mentioning = m\<rparr>))"

text \<open>
  \<^verbatim>\<open>analyze_data\<close> of \<^verbatim>\<open>agent.py\<close>: nothing for an empty frame; for \<^verbatim>\<open>'github'\<close> the
  ranking by \<^verbatim>\<open>stars\<close> and the mentions in description and README; for \<^verbatim>\<open>'reddit'\<close> the
  ranking by \<^verbatim>\<open>score\<close> and the mentions in title, body and comment sample; nothing for
  another source type. The lines of the ranking are printed with \<^verbatim>\<open>row.get\<close> and
  \<^verbatim>\<open>str\<close>, which do not raise.
\<close>

definition analyze_data :: "libs \<Rightarrow> dataframe \<Rightarrow> string \<Rightarrow> string option \<Rightarrow> exn + report" where
  "analyze_data L df source_type library_name =
     (if is_empty df then Inr no_report
      else if source_type = ''github'' then
        both_parts (ranking_part L df ''stars'')
          (mention_part L df [''description'', ''readme_content''] library_name)
      else if source_type = ''reddit'' then
        both_parts (ranking_part L df ''score'')
          (mention_part L df [''title'', ''selftext'', ''comments_sample''] library_name)
      else Inr no_report)"

text \<open>
  \<^verbatim>\<open>analyze_data\<close> of \<^verbatim>\<open>main.py\<close>: the ranking is not guarded by a test of the column,
  the comments are in the column \<^verbatim>\<open>comments\<close>, and the lines are printed with
  \<^verbatim>\<open>row['description'][:100]\<close> (GitHub) and \<^verbatim>\<open>row['url']\<close> (Reddit), which raise for
  a missing description or column.
\<close>

definition printable_main :: "string \<Rightarrow> row \<Rightarrow> bool" where
  "printable_main source_type entry =
     (if source_type = ''github''
      then map_of entry ''name'' \<noteq> None \<and> (case map_of entry ''description'' of Some (PStr s) \<Rightarrow> True | _ \<Rightarrow> False)
      else map_of entry ''title'' \<noteq> None \<and> map_of entry ''url'' \<noteq> None)"

definition ranking_part_main ::
  "libs \<Rightarrow> dataframe \<Rightarrow> string \<Rightarrow> string \<Rightarrow> exn + row list option" where
  "ranking_part_main L df source_type c =
     (case nlargest L 5 c df of
        Inl e \<Rightarrow> Inl e
      | Inr best \<Rightarrow>
          if list_all (printable_main source_type) best then Inr (Some best) else Inl TypeError)"

definition mention_part_main ::
  "libs \<Rightarrow> dataframe \<Rightarrow> string \<Rightarrow> string list \<Rightarrow> string option \<Rightarrow> exn + (row \<times> nat) list option" where
  "mention_part_main L df source_type cols library_name =
     (case mention_part L df cols library_name of
        Inl e \<Rightarrow> Inl e
      | Inr None \<Rightarrow> Inr None
      | Inr (Some ms) \<Rightarrow>
          if list_all (printable_main source_type) (map fst ms) then Inr (Some ms)
          else Inl TypeError)"

definition analyze_data_main :: "libs \<Rightarrow> dataframe \<Rightarrow> string \<Rightarrow> string option \<Rightarrow> exn + report" where
  "analyze_data_main L df source_type library_name =
     (if is_empty df then Inr no_report
      else if source_type = ''github'' then
        both_parts (ranking_part_main L df source_type ''stars'')
          (mention_part_main L df source_type [''description'', ''readme_content''] library_name)
      else if source_type = ''reddit'' then
        both_parts (ranking_part_main L df source_type ''score'')
          (mention_part_main L df source_type [''title'', ''selftext'', ''comments''] library_name)
      else Inr no_report)"

section \<open>The storage backend\<close>

subsection \<open>String operations\<close>

text \<open>
  \<^verbatim>\<open>s.replace(old, new)\<close> for a non-empty \<open>old\<close>: the occurrences are found from the left
  and do not overlap; \<open>skip\<close> is the number of characters still covered by the last one.
\<close>

fun replace_from :: "string \<Rightarrow> string \<Rightarrow> nat \<Rightarrow> string \<Rightarrow> string" where
  "replace_from old new skip [] = []"
| "replace_from old new skip (c # cs) =
     (if 0 < skip then replace_from old new (skip - 1) cs
      else if startswith (c # cs) old then new @ replace_from old new (length old - 1) cs
      else c # replace_from old new 0 cs)"

definition replace :: "string \<Rightarrow> string \<Rightarrow> string \<Rightarrow> string" where
  "replace s old new = replace_from old new 0 s"

text \<open>\<^verbatim>\<open>s.split(d)\<close> for a separator of one character: never the empty list.\<close>

fun split :: "string \<Rightarrow> char \<Rightarrow> string list" where
  "split [] d = [[]]"
| "split (c # cs) d =
     (if c = d then [] # split cs d
      else (case split cs d of [] \<Rightarrow> [[c]] | p # ps \<Rightarrow> (c # p) # ps))"

text \<open>\<^verbatim>\<open>os.path.join(a, b)\<close> of \<^verbatim>\<open>posixpath\<close>: an absolute \<open>b\<close> replaces \<open>a\<close>.\<close>

definition os_path_join :: "string \<Rightarrow> string \<Rightarrow> string" where
  "os_path_join a b =
     (if startswith b ''/'' then b
      else if a = [] \<or> last a = CHR ''/'' then a @ b
      else a @ ''/'' @ b)"

subsection \<open>The world outside\<close>

text \<open>
  The state the program works on: whether the S3 client was initialised, the bucket
  name of the environment, the objects of S3 by bucket and key, and the local files by
  path, each with its text.
\<close>

record world =
  s3_client :: bool
  S3_BUCKET_NAME :: "string option"
  s3_objects :: "string \<times> string \<rightharpoonup> string"
  files :: "string \<rightharpoonup> string"

text \<open>A string is true in a condition when it is there and not empty.\<close>

definition truthy :: "string option \<Rightarrow> bool" where
  "truthy x = (case x of None \<Rightarrow> False | Some s \<Rightarrow> s \<noteq> [])"

text \<open>
  What happens outside during one call of \<^verbatim>\<open>save_data_to_storage\<close>: the reading of the
  clock as \<^verbatim>\<open>strftime('%Y%m%d%H%M%S')\<close> gives it, the exception \<^verbatim>\<open>put_object\<close> raises if
  it does, the exception \<^verbatim>\<open>open(path, 'w')\<close> raises if it does, and the number of
  characters the file takes before writing fails (\<open>None\<close> when it takes them all).
\<close>

record save_events =
  timestamp :: string
  put_object_raises :: "exn option"
  open_raises :: "exn option"
  write_room :: "nat option"

text \<open>
  The same for one call of \<^verbatim>\<open>load_data_from_storage\<close>, with the console: the
  characters beyond ASCII that its encoding has. \<^verbatim>\<open>print\<close> raises
  \<^verbatim>\<open>UnicodeEncodeError\<close> for a text with a character the console cannot encode.
  \<open>message e\<close> is the text that \<^verbatim>\<open>{e}\<close> gives for the exception \<open>e\<close> of this call.
\<close>

record load_events =
  get_object_raises :: "exn option"
  read_raises :: "exn option"
  console :: "char \<Rightarrow> bool"
  message :: "exn \<Rightarrow> string"

definition printable :: "load_events \<Rightarrow> string \<Rightarrow> bool" where
  "printable E s = list_all (\<lambda>c. isascii c \<or> console E c) s"

subsection \<open>Frames from stored text\<close>

text \<open>\<^verbatim>\<open>json.dumps(v, ensure_ascii=False, indent=4)\<close>: the whole text, or the exception.\<close>

definition json_dumps :: "libs \<Rightarrow> pyval \<Rightarrow> exn + string" where
  "json_dumps L v = (case json_encode L v of (s, None) \<Rightarrow> Inr s | (s, Some e) \<Rightarrow> Inl e)"

text \<open>
  \<^verbatim>\<open>pd.DataFrame(data)\<close> for a list of dictionaries: the columns are the keys in the
  order of their first appearance, and a record without a key gets a missing cell.
  pandas then chooses a type for each column, and may change the cells for it: in a
  column of integers with a float or a missing value, 5 becomes 5.0. \<open>frame_of_records\<close>
  is the frame with every cell as it was written; it is the frame pandas builds when
  every column is kept as written, which is the case for a column of 64-bit integers,
  a column of floats, a column of booleans, and a column of objects (strings, lists,
  dictionaries and missing values).
\<close>

fun first_seen :: "string list \<Rightarrow> string list" where
  "first_seen [] = []"
| "first_seen (k # ks) = k # filter (\<lambda>x. x \<noteq> k) (first_seen ks)"

definition frame_of_records :: "row list \<Rightarrow> dataframe" where
  "frame_of_records recs =
     (let cols = first_seen (concat (map (map fst) recs))
      in \<lparr>columns = cols, rows = map (\<lambda>d. map (\<lambda>c. (c, cell d c)) cols) recs\<rparr>)"

fun as_record :: "pyval \<Rightarrow> row option" where
  "as_record (PDict d) = Some d"
| "as_record v = None"

definition as_records :: "pyval \<Rightarrow> row list option" where
  "as_records v =
     (case v of
        PList xs \<Rightarrow>
          if list_all (\<lambda>x. as_record x \<noteq> None) xs then Some (map (\<lambda>x. the (as_record x)) xs)
          else None
      | _ \<Rightarrow> None)"

definition kept_column :: "pyval list \<Rightarrow> bool" where
  "kept_column vs =
     (list_all is_int64 vs \<or>
      list_all (\<lambda>v. case v of PFloat x \<Rightarrow> True | _ \<Rightarrow> False) vs \<or>
      list_all (\<lambda>v. case v of PBool b \<Rightarrow> True | _ \<Rightarrow> False) vs \<or>
      list_all (\<lambda>v. case v of
                     PNone \<Rightarrow> True | PStr s \<Rightarrow> True | PList xs \<Rightarrow> True | PDict d \<Rightarrow> True
                   | _ \<Rightarrow> False) vs)"

definition kept_as_written :: "row list \<Rightarrow> bool" where
  "kept_as_written recs =
     list_all (\<lambda>c. kept_column (map (\<lambda>d. cell d c) recs))
       (first_seen (concat (map (map fst) recs)))"

text \<open>
  \<^verbatim>\<open>pd.DataFrame(data)\<close> for a list of integers that is not empty, such as
  \<^verbatim>\<open>[1, 2, 3]\<close>: one column, labelled with the integer 0 (written here as the string
  \<^verbatim>\<open>0\<close>), and one row for each integer.
\<close>

definition as_integers :: "pyval \<Rightarrow> pyval list option" where
  "as_integers v =
     (case v of
        PList xs \<Rightarrow> if xs \<noteq> [] \<and> list_all is_int64 xs then Some xs else None
      | _ \<Rightarrow> None)"

definition frame_of_integers :: "pyval list \<Rightarrow> dataframe" where
  "frame_of_integers xs = \<lparr>columns = [''0''], rows = map (\<lambda>x. [(''0'', x)]) xs\<rparr>"

definition DataFrame :: "libs \<Rightarrow> pyval \<Rightarrow> exn + dataframe" where
  "DataFrame L v =
     (case as_records v of
        Some recs \<Rightarrow>
          if kept_as_written recs then Inr (frame_of_records recs) else DataFrame_other L v
      | None \<Rightarrow>
          (case as_integers v of
             Some xs \<Rightarrow> Inr (frame_of_integers xs)
           | None \<Rightarrow> DataFrame_other L v))"

text \<open>\<^verbatim>\<open>data = json.loads(content); return pd.DataFrame(data)\<close>\<close>

definition parse_frame :: "libs \<Rightarrow> string \<Rightarrow> exn + dataframe" where
  "parse_frame L content =
     (case json_loads L content of Inl e \<Rightarrow> Inl e | Inr v \<Rightarrow> DataFrame L v)"

subsection \<open>Saving\<close>

text \<open>
  \<^verbatim>\<open>
  def save_data_to_storage(data_to_save, source_type, query_details):
      timestamp = datetime.now().strftime('%Y%m%d%H%M%S')
      safe_query_details = sanitize_for_filename(query_details)
      base_filename = f"{source_type}_{safe_query_details}_{timestamp}.json"
      s3_key_prefix = f"{source_type}_data/"
      s3_key = f"{s3_key_prefix}{base_filename}"
      if s3_client and S3_BUCKET_NAME:
          try:
              s3_client.put_object(Bucket=S3_BUCKET_NAME, Key=s3_key,
                  Body=json.dumps(data_to_save, ensure_ascii=False, indent=4),
                  ContentType='application/json')
              s3_uri = f"s3://{S3_BUCKET_NAME}/{s3_key}"
              return s3_uri
          except ClientError as e: print(...)
          except Exception as e: print(...)
      local_file_path = os.path.join(DATA_DIR, base_filename)
      try:
          with open(local_file_path, 'w', encoding='utf-8') as f:
              json.dump(data_to_save, f, ensure_ascii=False, indent=4)
          return local_file_path
      except Exception as e:
          print(...)
          return None
  \<close>
\<close>

definition DATA_DIR :: string where
  "DATA_DIR = ''data''"

definition base_filename :: "save_events \<Rightarrow> string \<Rightarrow> string \<Rightarrow> string" where
  "base_filename E source_type query_details =
     source_type @ ''_'' @ sanitize_for_filename query_details @ ''_'' @ timestamp E @ ''.json''"

definition s3_key :: "save_events \<Rightarrow> string \<Rightarrow> string \<Rightarrow> string" where
  "s3_key E source_type query_details =
     (source_type @ ''_data/'') @ base_filename E source_type query_details"

text \<open>
  The local tier. \<^verbatim>\<open>open(path, 'w')\<close> creates the file or empties it; \<^verbatim>\<open>json.dump\<close>
  writes the text chunk by chunk; when the encoder or the writing raises, the \<^verbatim>\<open>with\<close>
  block closes the file with what was written so far, and nothing removes it.
\<close>

definition local_save :: "libs \<Rightarrow> save_events \<Rightarrow> world \<Rightarrow> pyval \<Rightarrow> string \<Rightarrow> world \<times> string option" where
  "local_save L E W data_to_save local_file_path =
     (case open_raises E of
        Some e \<Rightarrow> (W, None)
      | None \<Rightarrow>
          (case json_encode L data_to_save of
             (txt, err) \<Rightarrow>
               let room = (case write_room E of None \<Rightarrow> length txt | Some k \<Rightarrow> k);
                   written = W\<lparr>files := (files W)(local_file_path \<mapsto> take room txt)\<rparr>
               in if err = None \<and> length txt \<le> room then (written, Some local_file_path)
                  else (written, None)))"

definition save_data_to_storage ::
  "libs \<Rightarrow> save_events \<Rightarrow> world \<Rightarrow> pyval \<Rightarrow> string \<Rightarrow> string \<Rightarrow> world \<times> string option" where
  "save_data_to_storage L E W data_to_save source_type query_details =
     (let local_file_path = os_path_join DATA_DIR (base_filename E source_type query_details);
          fallback = local_save L E W data_to_save local_file_path
      in case S3_BUCKET_NAME W of
           None \<Rightarrow> fallback
         | Some bucket \<Rightarrow>
             if s3_client W \<and> bucket \<noteq> [] then
               (case json_dumps L data_to_save of
                  Inl e \<Rightarrow> fallback
                | Inr body \<Rightarrow>
                    (case put_object_raises E of
                       Some e \<Rightarrow> fallback
                     | None \<Rightarrow>
                         (W\<lparr>s3_objects :=
                               (s3_objects W)((bucket, s3_key E source_type query_details) \<mapsto> body)\<rparr>,
                          Some (''s3://'' @ bucket @ ''/'' @ s3_key E source_type query_details))))
             else fallback)"

subsection \<open>Loading\<close>

text \<open>
  \<^verbatim>\<open>
  def load_data_from_storage(storage_path):
      print(f"Attempting to load data from: {storage_path}")
      if storage_path.startswith("s3://"):
          if not s3_client or not S3_BUCKET_NAME:
              print("S3 client not configured or S3_BUCKET_NAME missing. "
                    "Cannot load from S3 path.")
              return pd.DataFrame()
          try:
              path_parts = storage_path.replace("s3://", "").split("/")
              bucket = path_parts[0]
              key = "/".join(path_parts[1:])
              if not bucket or not key:
                  print(f"Invalid S3 path format: {storage_path}")
                  return pd.DataFrame()
              response = s3_client.get_object(Bucket=bucket, Key=key)
              content = response['Body'].read().decode('utf-8')
              data = json.loads(content)
              print(f"Successfully loaded data from S3: {storage_path}")
              return pd.DataFrame(data)
          except ClientError as e:
              print(f"S3 Load Error: Could not load data from {storage_path}. Error: {e}")
              return pd.DataFrame()
          except Exception as e:
              print(f"An unexpected error occurred during S3 load from {storage_path}: {e}")
              return pd.DataFrame()
      else:
          if not os.path.exists(storage_path):
              print(f"Local Load Error: File not found at {storage_path}")
              return pd.DataFrame()
          try:
              with open(storage_path, 'r', encoding='utf-8') as f:
                  data = json.load(f)
              print(f"Successfully loaded data locally from: {storage_path}")
              return pd.DataFrame(data)
          except Exception as e:
              print(f"Local Load Error: Failed to load data from {storage_path}: {e}")
              return pd.DataFrame()
  \<close>
  The two \<^verbatim>\<open>try\<close> blocks are \<open>s3_attempt\<close> and \<open>local_attempt\<close>; an object or a file
  that is not there makes \<^verbatim>\<open>get_object\<close> or \<^verbatim>\<open>open\<close> raise.

  The first \<^verbatim>\<open>print\<close> stands outside every \<^verbatim>\<open>try\<close>: when the console cannot encode
  the locator, the function raises. The lines printed after it that hold fixed ASCII
  text and the locator only cannot raise any more. The lines printed in the three
  \<^verbatim>\<open>except\<close> clauses end with the message of the exception that was caught; a clause
  is \<open>caught\<close>, and what its \<^verbatim>\<open>print\<close> raises leaves the function, since no \<^verbatim>\<open>try\<close>
  encloses the clause.
\<close>

definition caught :: "load_events \<Rightarrow> exn \<Rightarrow> exn + dataframe" where
  "caught E e =
     (if printable E (message E e) then Inr empty_frame else Inl UnicodeEncodeError)"

definition s3_location :: "string \<Rightarrow> exn + string \<times> string" where
  "s3_location storage_path =
     (case split (replace storage_path ''s3://'' []) CHR ''/'' of
        [] \<Rightarrow> Inl IndexError
      | bucket # rest \<Rightarrow> Inr (bucket, join ''/'' rest))"

definition get_object :: "load_events \<Rightarrow> world \<Rightarrow> string \<Rightarrow> string \<Rightarrow> exn + string" where
  "get_object E W bucket key =
     (case get_object_raises E of
        Some e \<Rightarrow> Inl e
      | None \<Rightarrow>
          (case s3_objects W (bucket, key) of
             None \<Rightarrow> Inl ClientError
           | Some body \<Rightarrow> Inr body))"

definition read_file :: "load_events \<Rightarrow> world \<Rightarrow> string \<Rightarrow> exn + string" where
  "read_file E W path =
     (case read_raises E of
        Some e \<Rightarrow> Inl e
      | None \<Rightarrow> (case files W path of None \<Rightarrow> Inl OSError | Some content \<Rightarrow> Inr content))"

definition s3_attempt :: "libs \<Rightarrow> load_events \<Rightarrow> world \<Rightarrow> string \<Rightarrow> exn + dataframe" where
  "s3_attempt L E W storage_path =
     (case s3_location storage_path of
        Inl e \<Rightarrow> Inl e
      | Inr (bucket, key) \<Rightarrow>
          if bucket = [] \<or> key = [] then Inr empty_frame
          else (case get_object E W bucket key of
                  Inl e \<Rightarrow> Inl e
                | Inr content \<Rightarrow> parse_frame L content))"

definition local_attempt :: "libs \<Rightarrow> load_events \<Rightarrow> world \<Rightarrow> string \<Rightarrow> exn + dataframe" where
  "local_attempt L E W storage_path =
     (case read_file E W storage_path of
        Inl e \<Rightarrow> Inl e
      | Inr content \<Rightarrow> parse_frame L content)"

definition load_data_from_storage :: "libs \<Rightarrow> load_events \<Rightarrow> world \<Rightarrow> string \<Rightarrow> exn + dataframe" where
  "load_data_from_storage L E W storage_path =
     (if \<not> printable E (''Attempting to load data from: '' @ storage_path)
      then Inl UnicodeEncodeError
      else if startswith storage_path ''s3://'' then
        (if \<not> s3_client W \<or> \<not> truthy (S3_BUCKET_NAME W) then Inr empty_frame
         else (case s3_attempt L E W storage_path of
                 Inr df \<Rightarrow> Inr df
               | Inl ClientError \<Rightarrow> caught E ClientError
               | Inl e \<Rightarrow> caught E e))
      else
        (if files W storage_path = None then Inr empty_frame
         else (case local_attempt L E W storage_path of
                 Inr df \<Rightarrow> Inr df
               | Inl e \<Rightarrow> caught E e)))"

section \<open>Example records\<close>

text \<open>Concrete records, on which the theorems below are instantiated.\<close>

definition hello_repository :: repository where
  "hello_repository =
     \<lparr>repo_id = 1, full_name = ''octocat/hello'', description = Some ''A first repository'',
      stargazers_count = 5, forks_count = 0, language = None,
      html_url = ''https://github.com/octocat/hello'', created_at = None,
      updated_at = None, get_topics = [], get_readme = Inl ClientError\<rparr>"

definition rust_submission :: submission where
  "rust_submission =
     \<lparr>submission_id = ''abc'', title = ''Why Rust?'', score = 9,
      url = ''https://example.org/rust'', permalink = ''/r/rust/abc'',
      selftext = ''Rust is great, I love rust'', created_utc = 0, num_comments = 2,
      author = None, link_flair_text = None,
      top_comments = Inr [Some ''trust me'', Some ''[deleted]'', None, Some ''late'']\<rparr>"

text \<open>The three records of the ranking example of the specification.\<close>

definition abc_records :: "row list" where
  "abc_records =
     [[(''name'', PStr ''A''), (''stars'', PInt 5)],
      [(''name'', PStr ''B''), (''stars'', PInt 9)],
      [(''name'', PStr ''C''), (''stars'', PInt 9)]]"

definition abc_frame :: dataframe where
  "abc_frame = \<lparr>columns = [''name'', ''stars''], rows = abc_records\<rparr>"

definition abc_data :: pyval where
  "abc_data = PList (map PDict abc_records)"

text \<open>The text \<^verbatim>\<open>json\<close> writes for these records, with an indent of four spaces.\<close>

definition json_line :: "nat \<Rightarrow> string \<Rightarrow> string" where
  "json_line indent s = replicate indent CHR '' '' @ s @ [CHR 0x0A]"

definition json_field :: "string \<Rightarrow> string \<Rightarrow> string" where
  "json_field k v = [CHR 0x22] @ k @ [CHR 0x22] @ '': '' @ v"

definition json_string :: "string \<Rightarrow> string" where
  "json_string s = [CHR 0x22] @ s @ [CHR 0x22]"

definition abc_json :: string where
  "abc_json =
     json_line 0 ''['' @
     json_line 4 ''{'' @
     json_line 8 (json_field ''name'' (json_string ''A'') @ '','') @
     json_line 8 (json_field ''stars'' ''5'') @
     json_line 4 ''},'' @
     json_line 4 ''{'' @
     json_line 8 (json_field ''name'' (json_string ''B'') @ '','') @
     json_line 8 (json_field ''stars'' ''9'') @
     json_line 4 ''},'' @
     json_line 4 ''{'' @
     json_line 8 (json_field ''name'' (json_string ''C'') @ '','') @
     json_line 8 (json_field ''stars'' ''9'') @
     json_line 4 ''}'' @
     '']''"

text \<open>
  Libraries for the examples: \<^verbatim>\<open>json\<close> on the three records and on the text
  \<^verbatim>\<open>[1, 2, 3]\<close> only, no regular expressions beyond the dot, and a sort that is stable.
\<close>

definition demo_libs :: libs where
  "demo_libs =
     \<lparr>json_encode = (\<lambda>v. if v = abc_data then (abc_json, None) else ([], Some TypeError)),
      json_loads =
        (\<lambda>s. if s = abc_json then Inr abc_data
             else if s = ''[1, 2, 3]'' then Inr (PList [PInt 1, PInt 2, PInt 3])
             else Inl JSONDecodeError),
      DataFrame_other = (\<lambda>v. Inl ValueError),
      nlargest_other = (\<lambda>n c df. Inl TypeError),
      re_findall = (\<lambda>pat s. Inl re_error),
      sort_values = sort_desc (\<lambda>x. int (snd x))\<rparr>"

text \<open>Six posts that mention a term 1, 4, 0, 2, 6, 3 and 5 times in their title.\<close>

definition word_post :: "string \<Rightarrow> nat \<Rightarrow> row" where
  "word_post name n =
     [(''title'', PStr (concat (replicate n ''rust ''))), (''selftext'', PStr name),
      (''comments_sample'', PNone), (''comments'', PNone), (''score'', PInt 1),
      (''url'', PStr ''u'')]"

definition seven_posts :: dataframe where
  "seven_posts =
     \<lparr>columns = [''title'', ''selftext'', ''comments_sample'', ''comments'', ''score'', ''url''],
      rows = [word_post ''p1'' 1, word_post ''p2'' 4, word_post ''p3'' 0, word_post ''p4'' 2,
              word_post ''p5'' 6, word_post ''p6'' 3, word_post ''p7'' 5]\<rparr>"

text \<open>Worlds and events for the examples.\<close>

definition cloud :: world where
  "cloud =
     \<lparr>s3_client = True, S3_BUCKET_NAME = Some ''insights'',
      s3_objects = Map.empty, files = Map.empty\<rparr>"

definition offline :: world where
  "offline = cloud\<lparr>s3_client := False, S3_BUCKET_NAME := None\<rparr>"

definition calm :: save_events where
  "calm =
     \<lparr>timestamp = ''20240101120000'', put_object_raises = None, open_raises = None,
      write_room = None\<rparr>"

definition quiet :: load_events where
  "quiet =
     \<lparr>get_object_raises = None, read_raises = None, console = (\<lambda>c. True),
      message = (\<lambda>e. ''failed'')\<rparr>"

text \<open>A world with one object and one file that do not hold JSON.\<close>

definition cluttered :: world where
  "cluttered =
     cloud\<lparr>s3_objects := [(''insights'', ''notes/today.txt'') \<mapsto> ''not json''],
           files := [''data/today.txt'' \<mapsto> ''not json'']\<rparr>"

text \<open>
  A world with one object and one file that hold JSON of another shape than a list of
  records, and the frame that \<^verbatim>\<open>pd.DataFrame([1, 2, 3])\<close> is.
\<close>

definition numbered :: world where
  "numbered =
     cloud\<lparr>s3_objects := [(''insights'', ''notes/numbers.json'') \<mapsto> ''[1, 2, 3]''],
           files := [''data/numbers.json'' \<mapsto> ''[1, 2, 3]'']\<rparr>"

definition numbers_frame :: dataframe where
  "numbers_frame =
     \<lparr>columns = [''0''], rows = [[(''0'', PInt 1)], [(''0'', PInt 2)], [(''0'', PInt 3)]]\<rparr>"

text \<open>A console that encodes ASCII only.\<close>

definition plain :: load_events where
  "plain = quiet\<lparr>console := (\<lambda>c. False)\<rparr>"

text \<open>A repository whose README has 200,001 characters.\<close>

definition long_repository :: repository where
  "long_repository = hello_repository\<lparr>get_readme := Inr (replicate 200001 CHR ''a'')\<rparr>"

text \<open>The field set of the three records of the ranking example.\<close>

definition abc_schema :: "(string \<times> ctype) list" where
  "abc_schema = [(''name'', TStr), (''stars'', TInt)]"

section \<open>Properties of the key sanitizer\<close>

lemma code_less: "code c < 256"
proof -
  have "of_char c mod 256 = (of_char c :: nat)" by (rule of_char_mod_256)
  then show ?thesis unfolding code_def by (metis mod_less_divisor zero_less_numeral)
qed

lemma code_eq_iff: "code a = code b \<longleftrightarrow> a = b"
  by (simp add: code_def)

lemma code_lower_char:
  "code (lower_char c) =
     (if (65 \<le> code c \<and> code c \<le> 90) \<or> (192 \<le> code c \<and> code c \<le> 222 \<and> code c \<noteq> 215)
      then code c + 32 else code c)"
proof -
  have "code (char_of (code c + 32)) = (code c + 32) mod 256"
    by (simp add: code_def)
  then show ?thesis
    unfolding lower_char_def Let_def by auto
qed

lemma code_underscore: "code CHR ''_'' = 95"
  by (simp add: code_def)

lemma code_hyphen: "code CHR ''-'' = 45"
  by (simp add: code_def)


lemma strip_where_split:
  "dropWhile P s = strip_where P s @ rev (takeWhile P (rev (dropWhile P s)))"
proof -
  have "rev (dropWhile P s) = takeWhile P (rev (dropWhile P s)) @ dropWhile P (rev (dropWhile P s))"
    by simp
  then have "rev (rev (dropWhile P s)) =
      rev (takeWhile P (rev (dropWhile P s)) @ dropWhile P (rev (dropWhile P s)))"
    by simp
  then show ?thesis
    unfolding strip_where_def by (simp only: rev_rev_ident rev_append)
qed

lemma set_strip_where: "set (strip_where P s) \<subseteq> set s"
proof -
  have "set (strip_where P s) \<subseteq> set (dropWhile P s)"
    using strip_where_split [of P s] by (metis Un_upper1 set_append)
  moreover have "set (dropWhile P s) \<subseteq> set s"
    by (auto dest: set_dropWhileD)
  ultimately show ?thesis by blast
qed




lemma char_eq_code: "c = d \<longleftrightarrow> code c = code d"
  by (simp add: code_eq_iff)




lemma lower_char_marks: "lower_char CHR ''_'' = CHR ''_''" "lower_char CHR ''-'' = CHR ''-''"
  by (simp_all add: lower_char_def code_underscore code_hyphen)


lemma sanitize_unfold:
  "sanitize_for_filename t =
     take 50 (map lower_char (strip_where (\<lambda>c. c = CHR ''_'')
       (map (\<lambda>c. if isalnum c \<or> c = CHR ''_'' \<or> c = CHR ''-'' then c else CHR ''_'') t)))"
  by (simp add: sanitize_for_filename_def lower_def)

lemma sanitize_chars:
  assumes "c \<in> set (sanitize_for_filename t)"
  shows "c = CHR ''_'' \<or> c = CHR ''-'' \<or> (\<exists>d\<in>set t. isalnum d \<and> c = lower_char d)"
proof -
  let ?m = "map (\<lambda>c. if isalnum c \<or> c = CHR ''_'' \<or> c = CHR ''-'' then c else CHR ''_'') t"
  from assms have "c \<in> set (map lower_char (strip_where (\<lambda>c. c = CHR ''_'') ?m))"
    unfolding sanitize_unfold by (rule in_set_takeD)
  then obtain x where x: "x \<in> set (strip_where (\<lambda>c. c = CHR ''_'') ?m)" and c: "c = lower_char x"
    by auto
  from x have "x \<in> set ?m"
    using set_strip_where by blast
  then obtain d where d: "d \<in> set t"
    and xd: "x = (if isalnum d \<or> d = CHR ''_'' \<or> d = CHR ''-'' then d else CHR ''_'')"
    by auto
  show ?thesis
  proof (cases "isalnum d")
    case True
    with xd c d show ?thesis by auto
  next
    case False
    with xd have "x = CHR ''_'' \<or> x = CHR ''-''" by auto
    with c show ?thesis by (auto simp: lower_char_marks)
  qed
qed










section \<open>Properties of the normalizer\<close>

lemma github_record_conforms: "conforms (github_record repo) github_schema"
  by (cases "description repo"; cases "language repo"; cases "created_at repo";
      cases "updated_at repo")
     (simp_all add: github_record_def github_schema_def conforms_def opt_str_def list_all_iff)

lemma reddit_record_conforms: "conforms (reddit_record sub) reddit_schema"
  by (cases "link_flair_text sub")
     (simp_all add: reddit_record_def reddit_schema_def conforms_def opt_str_def)

text \<open>In \<^verbatim>\<open>agent.py\<close> the README field of a record never exceeds 200,000 characters.\<close>

lemma github_record_readme_bound:
  "\<exists>n. readme_length (github_record repo) = Some n \<and> n \<le> 200000"
  by (simp add: github_record_def readme_length_def Let_def)

text \<open>
  C9, as amended. The record that \<^verbatim>\<open>fetch_github_data\<close> of \<^verbatim>\<open>agent.py\<close> builds holds in its
  README field the first 200,000 characters of the fetched README (the empty text when
  fetching it raised), so at most 200,000 characters whatever the length of the README.
  The record that \<^verbatim>\<open>fetch_github_data\<close> of \<^verbatim>\<open>main.py\<close> builds holds the README as
  fetched, with its full length.
\<close>

theorem readme_content_field:
  "map_of (github_record repo) ''readme_content''
     = Some (PStr (take 200000 (readme_of repo))) \<and>
   (\<exists>n. readme_length (github_record repo) = Some n \<and> n \<le> 200000) \<and>
   map_of (github_record_main repo) ''readme_content'' = Some (PStr (readme_of repo)) \<and>
   readme_length (github_record_main repo) = Some (length (readme_of repo))"
proof -
  have "map_of (github_record repo) ''readme_content''
          = Some (PStr (take 200000 (readme_of repo)))"
    by (simp add: github_record_def Let_def)
  moreover have "map_of (github_record_main repo) ''readme_content''
          = Some (PStr (readme_of repo))"
    by (simp add: github_record_main_def Let_def)
  moreover have "readme_length (github_record_main repo) = Some (length (readme_of repo))"
    by (simp add: github_record_main_def readme_length_def Let_def)
  ultimately show ?thesis
    using github_record_readme_bound [of repo] by simp
qed

text \<open>
  C9 asks that the README field of every repository record produced by normalization has
  at most 200,000 characters, whatever the length of the fetched README. The loop of
  \<^verbatim>\<open>fetch_github_data\<close> in \<^verbatim>\<open>main.py\<close> stores the README as fetched: for a README of
  200,001 characters the field of its record has 200,001 characters.
\<close>

theorem github_record_main_counterexample:
  "readme_length (github_record_main long_repository) = Some 200001 \<and>
   \<not> (\<exists>n. readme_length (github_record_main long_repository) = Some n \<and> n \<le> 200000)"
  by (simp add: github_record_main_def readme_length_def readme_of_def long_repository_def
      Let_def)

section \<open>Properties of the question-answering adapter\<close>

lemma strip_Nil: "strip [] = []"
  by (simp add: strip_def strip_where_def)




section \<open>Properties of context selection\<close>

lemma conforms_lookup:
  "conforms entry schema \<Longrightarrow> map_of schema k = Some t
     \<Longrightarrow> \<exists>v. map_of entry k = Some v \<and> has_type v t"
proof (induction entry arbitrary: schema)
  case Nil
  then show ?case by (simp add: conforms_def)
next
  case (Cons e entry)
  then obtain s schema' where sch: "schema = s # schema'"
    by (cases schema) (auto simp: conforms_def)
  with Cons.prems have fst_eq: "fst e = fst s" and ty: "has_type (snd e) (snd s)"
    and rest: "conforms entry schema'"
    by (auto simp: conforms_def)
  show ?case
  proof (cases "fst s = k")
    case True
    with sch Cons.prems(2) have "snd s = t" by (cases s) auto
    with True fst_eq ty show ?thesis by (cases e) auto
  next
    case False
    with sch Cons.prems(2) have "map_of schema' k = Some t" by (cases s) auto
    from Cons.IH [OF rest this] False fst_eq show ?thesis by (cases e) auto
  qed
qed

lemma conforms_absent:
  assumes "conforms entry schema" and "map_of schema k = None"
  shows "map_of entry k = None"
proof -
  from assms(2) have "k \<notin> set (map fst schema)"
    by (simp add: map_of_eq_None_iff)
  with assms(1) have "k \<notin> set (map fst entry)"
    by (simp add: conforms_def)
  then show ?thesis
    by (simp add: map_of_eq_None_iff)
qed

lemma has_type_TStr: "has_type v TStr \<Longrightarrow> \<exists>s. v = PStr s"
  by (cases v) auto

lemma has_type_TOptStr: "has_type v TOptStr \<Longrightarrow> v = PNone \<or> (\<exists>s. v = PStr s)"
  by (cases v) auto

lemma select_context_github:
  assumes "conforms entry github_schema"
  shows "select_context entry =
           Inr (first_nonblank [cell entry ''readme_content'', cell entry ''description''])"
proof -
  have "map_of github_schema ''readme_content'' = Some TStr"
    "map_of github_schema ''description'' = Some TOptStr"
    "map_of github_schema ''selftext'' = None"
    "map_of github_schema ''title'' = None"
    by (simp_all add: github_schema_def)
  with assms obtain r d where r: "map_of entry ''readme_content'' = Some r" "has_type r TStr"
    and d: "map_of entry ''description'' = Some d" "has_type d TOptStr"
    and n: "map_of entry ''selftext'' = None" "map_of entry ''title'' = None"
    by (meson conforms_lookup conforms_absent)
  from r(2) obtain rs where rs: "r = PStr rs" by (auto dest: has_type_TStr)
  from d(2) consider "d = PNone" | ds where "d = PStr ds" by (auto dest: has_type_TOptStr)
  then show ?thesis
  proof cases
    case 1
    with r d n rs show ?thesis
      by (simp add: select_context_def context_text_of_def candidate_def cell_def strip_Nil)
  next
    case 2
    with r d n rs show ?thesis
      by (auto simp add: select_context_def context_text_of_def candidate_def cell_def strip_Nil)
  qed
qed

lemma select_context_reddit:
  assumes "conforms entry reddit_schema"
  shows "select_context entry =
           Inr (first_nonblank [cell entry ''selftext'', cell entry ''title''])"
proof -
  have "map_of reddit_schema ''selftext'' = Some TStr"
    "map_of reddit_schema ''title'' = Some TStr"
    "map_of reddit_schema ''readme_content'' = None"
    "map_of reddit_schema ''description'' = None"
    by (simp_all add: reddit_schema_def)
  with assms obtain b t where b: "map_of entry ''selftext'' = Some b" "has_type b TStr"
    and t: "map_of entry ''title'' = Some t" "has_type t TStr"
    and n: "map_of entry ''readme_content'' = None" "map_of entry ''description'' = None"
    by (meson conforms_lookup conforms_absent)
  from b(2) obtain bs where bs: "b = PStr bs" by (auto dest: has_type_TStr)
  from t(2) obtain ts where ts: "t = PStr ts" by (auto dest: has_type_TStr)
  from b t n bs ts show ?thesis
    by (auto simp add: select_context_def context_text_of_def candidate_def cell_def strip_Nil)
qed

lemma first_candidate_nonblank:
  "first_candidate entry ks = Inr s \<Longrightarrow> s \<noteq> [] \<Longrightarrow> strip s \<noteq> []"
  by (induction ks) (auto simp: candidate_def split: sum.splits option.splits pyval.splits if_splits)

lemma select_context_not_blank:
  assumes "select_context entry = Inr (Some s)"
  shows "strip s \<noteq> []"
proof -
  from assms have "context_text_of entry = Inr s" and "s \<noteq> []"
    by (auto simp: select_context_def split: sum.splits if_splits)
  then show ?thesis
    unfolding context_text_of_def by (rule first_candidate_nonblank)
qed

text \<open>
  C7, as amended. For a repository record the context is the first of README and
  description that is not blank; for a discussion post it is the first of body and title
  that is not blank; when none of these is left, there is no context. A context that is
  selected is never blank. The name of a repository is not a candidate.
\<close>

theorem select_context_priority:
  "(conforms entry github_schema \<longrightarrow>
      select_context entry =
        Inr (first_nonblank [cell entry ''readme_content'', cell entry ''description''])) \<and>
   (conforms entry reddit_schema \<longrightarrow>
      select_context entry = Inr (first_nonblank [cell entry ''selftext'', cell entry ''title''])) \<and>
   (\<forall>s. select_context entry = Inr (Some s) \<longrightarrow> strip s \<noteq> [])"
  using select_context_github [of entry] select_context_reddit [of entry]
    select_context_not_blank [of entry]
  by blast

theorem select_context_priority_witness:
  "conforms (github_record hello_repository) github_schema \<and>
   select_context (github_record hello_repository) = Inr (Some ''A first repository'') \<and>
   strip ''A first repository'' \<noteq> [] \<and>
   conforms (reddit_record rust_submission) reddit_schema \<and>
   select_context (reddit_record rust_submission) = Inr (Some ''Rust is great, I love rust'')"
proof -
  note g = select_context_priority [of "github_record hello_repository"]
  note r = select_context_priority [of "reddit_record rust_submission"]
  have cg: "conforms (github_record hello_repository) github_schema"
    by (rule github_record_conforms)
  have cr: "conforms (reddit_record rust_submission) reddit_schema"
    by (rule reddit_record_conforms)
  have fg: "first_nonblank [cell (github_record hello_repository) ''readme_content'',
                            cell (github_record hello_repository) ''description'']
              = Some ''A first repository''"
    by (simp add: github_record_def hello_repository_def cell_def readme_of_def opt_str_def
        strip_def strip_where_def isspace_def code_def)
  have fr: "first_nonblank [cell (reddit_record rust_submission) ''selftext'',
                            cell (reddit_record rust_submission) ''title'']
              = Some ''Rust is great, I love rust''"
    by (simp add: reddit_record_def rust_submission_def cell_def
        strip_def strip_where_def isspace_def code_def)
  from g cg fg have sg:
    "select_context (github_record hello_repository) = Inr (Some ''A first repository'')"
    by simp
  with g have "strip ''A first repository'' \<noteq> []"
    by blast
  moreover from r cr fr have
    "select_context (reddit_record rust_submission) = Inr (Some ''Rust is great, I love rust'')"
    by simp
  ultimately show ?thesis
    using cg cr sg by blast
qed

text \<open>
  The claim as stated fails: for a repository record with no README, no description and
  the name \<^verbatim>\<open>octocat/hello\<close>, the specification's order (README, description, name)
  selects the name, and the program finds no context.
\<close>

theorem select_context_counterexample:
  "conforms (github_record (hello_repository\<lparr>description := None\<rparr>)) github_schema \<and>
   spec_select_context ''github'' (github_record (hello_repository\<lparr>description := None\<rparr>))
     = Some ''octocat/hello'' \<and>
   select_context (github_record (hello_repository\<lparr>description := None\<rparr>)) = Inr None"
proof -
  have "spec_select_context ''github'' (github_record (hello_repository\<lparr>description := None\<rparr>))
          = Some ''octocat/hello''"
    by (simp add: spec_select_context_def github_record_def hello_repository_def cell_def
        readme_of_def opt_str_def strip_def strip_where_def isspace_def code_def)
  moreover have
    "select_context (github_record (hello_repository\<lparr>description := None\<rparr>)) = Inr None"
    by (simp add: select_context_def context_text_of_def candidate_def github_record_def
        hello_repository_def readme_of_def opt_str_def strip_def strip_where_def)
  ultimately show ?thesis
    using github_record_conforms by blast
qed

section \<open>Properties of the analytics engine\<close>

lemma mset_insert_desc: "mset (insert_desc f x ys) = add_mset x (mset ys)"
  by (induction ys) auto

lemma mset_sort_desc: "mset (sort_desc f xs) = mset xs"
  by (induction xs) (auto simp: sort_desc_def mset_insert_desc)

lemma set_insert_desc: "set (insert_desc f x ys) = insert x (set ys)"
  using mset_insert_desc [of f x ys] by (metis set_mset_add_mset_insert set_mset_mset)

lemma sorted_insert_desc:
  "sorted_wrt (\<lambda>a b. f b \<le> f a) ys \<Longrightarrow> sorted_wrt (\<lambda>a b. f b \<le> f a) (insert_desc f x ys)"
  by (induction ys) (auto simp: set_insert_desc)

lemma sorted_sort_desc: "sorted_wrt (\<lambda>a b. f b \<le> f a) (sort_desc f xs)"
  by (induction xs) (auto simp: sort_desc_def sorted_insert_desc)







lemma collect_map_fst:
  "collect (map (mentions_of_row L cols name) rs) = Inr counted \<Longrightarrow> map fst counted = rs"
proof (induction rs arbitrary: counted)
  case Nil
  then show ?case by simp
next
  case (Cons r rs)
  then show ?case
    by (auto simp: mentions_of_row_def split: sum.splits)
qed

lemma mention_counts_rows:
  "mention_counts L df cols name = Inr counted \<Longrightarrow> map fst counted = rows df"
  by (auto simp: mention_counts_def split: if_splits dest: collect_map_fst)

lemma top_of_sorted:
  assumes "sorts_descending srt"
  shows "length (take n (srt xs)) = min n (length xs)"
    and "mset (take n (srt xs)) \<subseteq># mset xs"
    and "\<forall>x\<in>#mset xs - mset (take n (srt xs)). \<forall>y\<in>set (take n (srt xs)). snd x \<le> snd y"
proof -
  from assms have perm: "mset (srt xs) = mset xs"
    and srtd: "sorted_wrt (\<lambda>a b. snd b \<le> snd a) (srt xs)"
    by (simp_all add: sorts_descending_def)
  from perm have "length (srt xs) = length xs"
    by (metis size_mset)
  then show "length (take n (srt xs)) = min n (length xs)"
    by (simp add: min.commute)
  have split: "mset xs = mset (take n (srt xs)) + mset (drop n (srt xs))"
    by (metis perm append_take_drop_id mset_append)
  then show "mset (take n (srt xs)) \<subseteq># mset xs"
    by simp
  from srtd have "sorted_wrt (\<lambda>a b. snd b \<le> snd a) (take n (srt xs) @ drop n (srt xs))"
    by simp
  then have "\<forall>y\<in>set (take n (srt xs)). \<forall>x\<in>set (drop n (srt xs)). snd x \<le> snd y"
    by (simp only: sorted_wrt_append) blast
  moreover have "mset xs - mset (take n (srt xs)) = mset (drop n (srt xs))"
    by (simp add: split)
  ultimately show
    "\<forall>x\<in>#mset xs - mset (take n (srt xs)). \<forall>y\<in>set (take n (srt xs)). snd x \<le> snd y"
    by auto
qed

lemma mention_part_Some:
  assumes "mention_part L df cols library_name = Inr (Some ms)"
  shows "\<exists>name counted. library_name = Some name \<and> name \<noteq> [] \<and>
           mention_counts L df cols name = Inr counted \<and>
           ms = take 5 (sort_values L (filter (\<lambda>x. 0 < snd x) counted))"
  using assms
  by (auto simp: mention_part_def mention_report_def split: option.splits if_splits sum.splits)

lemma mention_part_main_Some:
  "mention_part_main L df source_type cols library_name = Inr (Some ms)
     \<Longrightarrow> mention_part L df cols library_name = Inr (Some ms)"
  by (auto simp: mention_part_main_def split: sum.splits option.splits if_splits)

lemma both_parts_mentioning:
  "both_parts rk ms = Inr rep \<Longrightarrow> ms = Inr (mentioning rep)"
  by (auto simp: both_parts_def split: sum.splits)

lemma analyze_data_mention_part:
  assumes "analyze_data L df source_type library_name = Inr rep
           \<or> analyze_data_main L df source_type library_name = Inr rep"
    and "mentioning rep = Some ms"
  shows "\<exists>cols. mention_part L df cols library_name = Inr (Some ms)"
proof -
  from assms(2) have nr: "rep \<noteq> no_report"
    by (auto simp: no_report_def)
  from assms(1) show ?thesis
  proof
    assume a: "analyze_data L df source_type library_name = Inr rep"
    with nr consider
      "both_parts (ranking_part L df ''stars'')
          (mention_part L df [''description'', ''readme_content''] library_name) = Inr rep"
      | "both_parts (ranking_part L df ''score'')
          (mention_part L df [''title'', ''selftext'', ''comments_sample''] library_name) = Inr rep"
      by (auto simp: analyze_data_def split: if_splits)
    then show ?thesis
      using assms(2) by cases (auto dest!: both_parts_mentioning)
  next
    assume a: "analyze_data_main L df source_type library_name = Inr rep"
    with nr consider
      "both_parts (ranking_part_main L df source_type ''stars'')
          (mention_part_main L df source_type [''description'', ''readme_content''] library_name)
         = Inr rep"
      | "both_parts (ranking_part_main L df source_type ''score'')
          (mention_part_main L df source_type [''title'', ''selftext'', ''comments''] library_name)
         = Inr rep"
      by (auto simp: analyze_data_main_def split: if_splits)
    then show ?thesis
      using assms(2) by cases (auto dest!: both_parts_mentioning mention_part_main_Some)
  qed
qed

text \<open>
  C10. Whenever \<^verbatim>\<open>analyze_data\<close> (of \<^verbatim>\<open>agent.py\<close> or of \<^verbatim>\<open>main.py\<close>) prints a mention
  report, the report has at most five rows: the counts are computed for every row of
  the frame, and the report holds five of the rows with a count above zero when there
  are more than five of them (all of them otherwise), none of the rows left out having
  a higher count than a row that is reported. This needs of \<^verbatim>\<open>sort_values\<close> only that
  it arranges the rows in descending order of the count.
\<close>

theorem mention_report_top_five:
  assumes "sorts_descending (sort_values L)"
    and "analyze_data L df source_type library_name = Inr rep
         \<or> analyze_data_main L df source_type library_name = Inr rep"
    and "mentioning rep = Some ms"
  shows "length ms \<le> 5 \<and>
         (\<exists>cols name counted.
            library_name = Some name \<and>
            mention_counts L df cols name = Inr counted \<and>
            map fst counted = rows df \<and>
            length ms = min 5 (length (filter (\<lambda>x. 0 < snd x) counted)) \<and>
            mset ms \<subseteq># mset (filter (\<lambda>x. 0 < snd x) counted) \<and>
            (\<forall>x\<in>#mset (filter (\<lambda>x. 0 < snd x) counted) - mset ms.
               \<forall>y\<in>set ms. snd x \<le> snd y))"
proof -
  from analyze_data_mention_part [OF assms(2,3)] obtain cols
    where "mention_part L df cols library_name = Inr (Some ms)" ..
  from mention_part_Some [OF this] obtain name counted
    where name: "library_name = Some name"
      and counted: "mention_counts L df cols name = Inr counted"
      and ms: "ms = take 5 (sort_values L (filter (\<lambda>x. 0 < snd x) counted))"
    by blast
  let ?pos = "filter (\<lambda>x. 0 < snd x) counted"
  note top = top_of_sorted [OF assms(1), where n = 5 and xs = ?pos]
  from top(1) have len: "length ms = min 5 (length ?pos)"
    by (simp add: ms)
  then have "length ms \<le> 5" by simp
  moreover from top(2) have "mset ms \<subseteq># mset ?pos"
    by (simp add: ms)
  moreover from top(3) have "\<forall>x\<in>#mset ?pos - mset ms. \<forall>y\<in>set ms. snd x \<le> snd y"
    by (simp add: ms)
  ultimately show ?thesis
    using name counted len mention_counts_rows [OF counted] by blast
qed

lemma demo_sorts_descending: "sorts_descending (sort_values demo_libs)"
proof -
  have "sorted_wrt (\<lambda>a b. snd b \<le> snd a) (sort_desc (\<lambda>x. int (snd x)) xs)"
    for xs :: "(row \<times> nat) list"
    using sorted_sort_desc [of "\<lambda>x. int (snd x)" xs] by simp
  then show ?thesis
    by (simp add: sorts_descending_def demo_libs_def mset_sort_desc)
qed

theorem mention_report_top_five_witness:
  "sorts_descending (sort_values demo_libs) \<and>
   (\<exists>rep. analyze_data demo_libs seven_posts ''reddit'' (Some ''Rust'') = Inr rep \<and>
          mentioning rep = Some [(word_post ''p5'' 6, 6), (word_post ''p7'' 5, 5),
            (word_post ''p2'' 4, 4), (word_post ''p6'' 3, 3), (word_post ''p4'' 2, 2)]) \<and>
   (\<exists>rep. analyze_data_main demo_libs seven_posts ''reddit'' (Some ''Rust'') = Inr rep \<and>
          mentioning rep = Some [(word_post ''p5'' 6, 6), (word_post ''p7'' 5, 5),
            (word_post ''p2'' 4, 4), (word_post ''p6'' 3, 3), (word_post ''p4'' 2, 2)]) \<and>
   length [(word_post ''p5'' 6, 6::nat), (word_post ''p7'' 5, 5),
            (word_post ''p2'' 4, 4), (word_post ''p6'' 3, 3), (word_post ''p4'' 2, 2)] \<le> 5"
proof -
  let ?ms = "[(word_post ''p5'' 6, 6::nat), (word_post ''p7'' 5, 5),
            (word_post ''p2'' 4, 4), (word_post ''p6'' 3, 3), (word_post ''p4'' 2, 2)]"
  have a: "(case analyze_data demo_libs seven_posts ''reddit'' (Some ''Rust'') of
              Inr rep \<Rightarrow> mentioning rep | Inl e \<Rightarrow> None) = Some ?ms"
    by code_simp
  have m: "(case analyze_data_main demo_libs seven_posts ''reddit'' (Some ''Rust'') of
              Inr rep \<Rightarrow> mentioning rep | Inl e \<Rightarrow> None) = Some ?ms"
    by code_simp
  from a obtain rep where rep:
    "analyze_data demo_libs seven_posts ''reddit'' (Some ''Rust'') = Inr rep"
    "mentioning rep = Some ?ms"
    by (auto split: sum.splits)
  from m obtain rep' where rep':
    "analyze_data_main demo_libs seven_posts ''reddit'' (Some ''Rust'') = Inr rep'"
    "mentioning rep' = Some ?ms"
    by (auto split: sum.splits)
  from mention_report_top_five [OF demo_sorts_descending disjI1 rep(2), OF rep(1)]
  have "length ?ms \<le> 5" by blast
  moreover from mention_report_top_five [OF demo_sorts_descending disjI2 rep'(2), OF rep'(1)]
  have "length ?ms \<le> 5" by blast
  ultimately show ?thesis
    using demo_sorts_descending rep rep' by blast
qed

text \<open>
  C6 asks for the number of occurrences of the term, case-insensitively, and for records
  without an occurrence to be left out. The program hands the term to
  \<^verbatim>\<open>Series.str.count\<close>, which reads it as a regular expression. For the term \<^verbatim>\<open>.\<close> and
  a repository with the description \<^verbatim>\<open>ab\<close> and an empty README the term does not
  occur in either field, nor in the text \<^verbatim>\<open>ab \<close> that is searched, and the program
  counts 3 mentions, one for each character of that text.
\<close>

theorem mention_counts_dot:
  "mention_counts L
     \<lparr>columns = [''name'', ''description'', ''readme_content''],
      rows = [[(''name'', PStr ''A''), (''description'', PStr ''ab''),
               (''readme_content'', PStr [])]]\<rparr>
     [''description'', ''readme_content''] ''.''
   = Inr [([(''name'', PStr ''A''), (''description'', PStr ''ab''),
            (''readme_content'', PStr [])], 3)] \<and>
   spec_mentions ''.'' ''ab '' = 0 \<and>
   spec_mentions ''.'' ''ab'' = 0"
  by (simp add: mention_counts_def mentions_of_row_def text_for_search_def fillna_text_def
      cell_def str_count_def regex_special_def count_matches_def lower_def lower_char_def
      code_def spec_mentions_def occurrences_def)

lemma str_count_rust:
  "str_count L (lower ''rust'') (lower ''Rust is great, I love rust'') = Inr 2"
proof -
  have "lower ''rust'' = ''rust''" "lower ''Rust is great, I love rust'' = ''rust is great, i love rust''"
    by code_simp+
  then show ?thesis
    by (simp add: str_count_def regex_special_def count_matches_def)
qed

lemma match_here_literal:
  "CHR ''.'' \<notin> set pat \<Longrightarrow> match_here pat s = startswith s pat"
  by (induction pat s rule: match_here.induct) auto

lemma code_specials:
  "code CHR ''.'' = 46" "code CHR ''^'' = 94" "code CHR ''$'' = 36" "code CHR ''*'' = 42"
  "code CHR ''+'' = 43" "code CHR ''?'' = 63" "code CHR ''{'' = 123" "code CHR ''}'' = 125"
  "code CHR ''['' = 91" "code CHR '']'' = 93" "code CHR ''|'' = 124" "code CHR ''('' = 40"
  "code CHR '')'' = 41" "code (CHR 0x5C) = 92"
  by (simp_all add: code_def)

lemma regex_special_code:
  "regex_special c \<longleftrightarrow>
     code c \<in> {46, 94, 36, 42, 43, 63, 123, 125, 91, 93, 124, 40, 41, 92}"
  by (simp add: regex_special_def char_eq_code [of c] code_specials)

lemma regex_special_lower: "regex_special (lower_char c) \<longleftrightarrow> regex_special c"
  unfolding regex_special_code code_lower_char by auto

text \<open>
  For a term without a character that is special in a regular expression, the program
  counts what the specification says.
\<close>

lemma literal_term_count:
  assumes "list_all (\<lambda>c. \<not> regex_special c) term"
  shows "str_count L (lower term) (lower s) = Inr (spec_mentions term s)"
proof -
  from assms have ns: "list_all (\<lambda>c. \<not> regex_special c) (lower term)"
    by (simp add: lower_def list_all_iff regex_special_lower)
  have "regex_special CHR ''.''"
    by (simp add: regex_special_def)
  with ns have nodot: "CHR ''.'' \<notin> set (lower term)"
    by (auto simp: list_all_iff)
  then have "match_here (lower term) = (\<lambda>t. startswith t (lower term))"
    by (auto simp: match_here_literal)
  moreover from ns have "list_all (\<lambda>c. \<not> regex_special c \<or> c = CHR ''.'') (lower term)"
    by (simp add: list_all_iff)
  ultimately show ?thesis
    by (simp add: str_count_def count_matches_def spec_mentions_def occurrences_def)
qed

section \<open>Properties of the storage backend\<close>

lemma split_not_Nil: "split s d \<noteq> []"
  by (induction s) (auto split: list.splits)

lemma s3_location_total: "\<exists>bucket key. s3_location p = Inr (bucket, key)"
  by (cases "split (replace p ''s3://'' []) CHR ''/''") (simp_all add: s3_location_def split_not_Nil)

lemma printable_announcement:
  "printable E (''Attempting to load data from: '' @ p) = printable E p"
  by (simp add: printable_def isascii_def code_def)

lemma load_unfold:
  "load_data_from_storage L E W p =
     (if \<not> printable E p then Inl UnicodeEncodeError
      else if startswith p ''s3://'' then
        (if \<not> s3_client W \<or> \<not> truthy (S3_BUCKET_NAME W) then Inr empty_frame
         else (case s3_attempt L E W p of
                 Inr df \<Rightarrow> Inr df
               | Inl ClientError \<Rightarrow> caught E ClientError
               | Inl e \<Rightarrow> caught E e))
      else
        (if files W p = None then Inr empty_frame
         else (case local_attempt L E W p of
                 Inr df \<Rightarrow> Inr df
               | Inl e \<Rightarrow> caught E e)))"
  by (simp only: load_data_from_storage_def printable_announcement)

lemma load_unprintable:
  "\<not> printable E p \<Longrightarrow> load_data_from_storage L E W p = Inl UnicodeEncodeError"
  by (simp add: load_unfold)

lemma load_s3_cases:
  assumes "printable E p" and "startswith p ''s3://''"
  shows "load_data_from_storage L E W p =
           (if \<not> s3_client W \<or> \<not> truthy (S3_BUCKET_NAME W) then Inr empty_frame
            else case s3_attempt L E W p of Inr df \<Rightarrow> Inr df | Inl e \<Rightarrow> caught E e)"
  using assms
  by (auto simp: load_unfold split: sum.splits exn.splits)

lemma load_local_cases:
  assumes "printable E p" and "\<not> startswith p ''s3://''"
  shows "load_data_from_storage L E W p =
           (if files W p = None then Inr empty_frame
            else case local_attempt L E W p of Inr df \<Rightarrow> Inr df | Inl e \<Rightarrow> caught E e)"
  using assms by (simp add: load_unfold)

lemma load_returns:
  assumes "printable E p" and "\<forall>e. printable E (message E e)"
  shows "\<exists>df. load_data_from_storage L E W p = Inr df"
proof (cases "startswith p ''s3://''")
  case True
  with assms show ?thesis
    by (auto simp: load_s3_cases caught_def split: sum.splits)
next
  case False
  with assms show ?thesis
    by (auto simp: load_local_cases caught_def split: sum.splits)
qed

lemma s3_attempt_ignores_files:
  "s3_attempt L (E\<lparr>read_raises := rr\<rparr>) (W\<lparr>files := fs\<rparr>) p = s3_attempt L E W p"
proof -
  have "get_object (E\<lparr>read_raises := rr\<rparr>) (W\<lparr>files := fs\<rparr>) b k = get_object E W b k" for b k
    by (simp add: get_object_def cong: option.case_cong)
  then show ?thesis
    by (simp add: s3_attempt_def cong: sum.case_cong prod.case_cong if_cong)
qed

lemma local_attempt_ignores_s3:
  "local_attempt L (E\<lparr>get_object_raises := gr\<rparr>)
      (W\<lparr>s3_client := c, S3_BUCKET_NAME := bn, s3_objects := objs\<rparr>) p
     = local_attempt L E W p"
  by (simp add: local_attempt_def read_file_def cong: option.case_cong sum.case_cong)

lemma load_ignores_files:
  assumes "startswith p ''s3://''"
  shows "load_data_from_storage L (E\<lparr>read_raises := rr\<rparr>) (W\<lparr>files := fs\<rparr>) p
           = load_data_from_storage L E W p"
proof (cases "printable E p")
  case True
  then have "printable (E\<lparr>read_raises := rr\<rparr>) p"
    by (simp add: printable_def)
  moreover have "caught (E\<lparr>read_raises := rr\<rparr>) e = caught E e" for e
    by (simp add: caught_def printable_def)
  ultimately show ?thesis
    using True assms
    by (simp add: load_s3_cases s3_attempt_ignores_files cong: sum.case_cong)
next
  case False
  then have "\<not> printable (E\<lparr>read_raises := rr\<rparr>) p"
    by (simp add: printable_def)
  with False show ?thesis
    by (simp add: load_unprintable)
qed

lemma load_ignores_s3:
  assumes "\<not> startswith p ''s3://''"
  shows "load_data_from_storage L (E\<lparr>get_object_raises := gr\<rparr>)
             (W\<lparr>s3_client := c, S3_BUCKET_NAME := bn, s3_objects := objs\<rparr>) p
           = load_data_from_storage L E W p"
proof (cases "printable E p")
  case True
  then have "printable (E\<lparr>get_object_raises := gr\<rparr>) p"
    by (simp add: printable_def)
  moreover have "caught (E\<lparr>get_object_raises := gr\<rparr>) e = caught E e" for e
    by (simp add: caught_def printable_def)
  ultimately show ?thesis
    using True assms
    by (simp add: load_local_cases local_attempt_ignores_s3 cong: sum.case_cong)
next
  case False
  then have "\<not> printable (E\<lparr>get_object_raises := gr\<rparr>) p"
    by (simp add: printable_def)
  with False show ?thesis
    by (simp add: load_unprintable)
qed

lemma numbers_frame_parsed: "parse_frame demo_libs ''[1, 2, 3]'' = Inr numbers_frame"
  by (simp add: parse_frame_def demo_libs_def abc_json_def json_line_def DataFrame_def
      as_records_def as_integers_def frame_of_integers_def numbers_frame_def is_int64_def
      int64_def)

text \<open>
  C3 says that \<^verbatim>\<open>load_data_from_storage\<close> returns a frame and never raises, for every
  locator, and that it returns the empty frame when the stored text does not parse as
  the expected table. Neither holds. The function begins by printing the locator,
  outside every \<^verbatim>\<open>try\<close>: on a console that encodes ASCII only, a locator with an e
  acute (code point 233) makes it raise \<^verbatim>\<open>UnicodeEncodeError\<close>. And a file that holds
  \<^verbatim>\<open>[1, 2, 3]\<close>, which is JSON but no list of records, is loaded as a frame of three
  rows, not as the empty frame.
\<close>

theorem load_data_from_storage_counterexample:
  "load_data_from_storage demo_libs plain cloud (''data/caf'' @ [CHR 0xE9] @ ''.json'')
     = Inl UnicodeEncodeError \<and>
   load_data_from_storage demo_libs quiet numbered ''data/numbers.json'' = Inr numbers_frame \<and>
   \<not> is_empty numbers_frame \<and>
   load_data_from_storage demo_libs quiet numbered ''s3://insights/notes/numbers.json''
     = Inr numbers_frame"
proof -
  have "\<not> printable plain (''data/caf'' @ [CHR 0xE9] @ ''.json'')"
    by (simp add: printable_def plain_def isascii_def code_def)
  then have 1: "load_data_from_storage demo_libs plain cloud (''data/caf'' @ [CHR 0xE9] @ ''.json'')
      = Inl UnicodeEncodeError"
    by (rule load_unprintable)
  have pr: "printable quiet p" for p
    by (simp add: printable_def quiet_def list_all_iff)
  have "local_attempt demo_libs quiet numbered ''data/numbers.json'' = Inr numbers_frame"
    by (simp add: local_attempt_def read_file_def quiet_def numbered_def cloud_def
        numbers_frame_parsed)
  moreover have "files numbered ''data/numbers.json'' = Some ''[1, 2, 3]''"
    by (simp add: numbered_def cloud_def)
  ultimately
  have 2: "load_data_from_storage demo_libs quiet numbered ''data/numbers.json''
      = Inr numbers_frame"
    by (simp add: load_local_cases [OF pr])
  have 3: "\<not> is_empty numbers_frame"
    by (simp add: is_empty_def numbers_frame_def)
  have "s3_location ''s3://insights/notes/numbers.json'' = Inr (''insights'', ''notes/numbers.json'')"
    by (simp add: s3_location_def replace_def)
  moreover have "get_object quiet numbered ''insights'' ''notes/numbers.json'' = Inr ''[1, 2, 3]''"
    by (simp add: get_object_def quiet_def numbered_def cloud_def)
  ultimately
  have "s3_attempt demo_libs quiet numbered ''s3://insights/notes/numbers.json''
      = Inr numbers_frame"
    by (simp add: s3_attempt_def numbers_frame_parsed)
  moreover have "s3_client numbered" "truthy (S3_BUCKET_NAME numbered)"
    by (simp_all add: numbered_def cloud_def truthy_def)
  ultimately
  have 4: "load_data_from_storage demo_libs quiet numbered ''s3://insights/notes/numbers.json''
      = Inr numbers_frame"
    by (simp add: load_s3_cases [OF pr])
  from 1 2 3 4 show ?thesis by blast
qed

text \<open>
  C3, as amended. For a locator and exception messages that the console can print,
  \<^verbatim>\<open>load_data_from_storage\<close> returns a frame and does not raise; for a locator that it
  cannot print, the function raises \<^verbatim>\<open>UnicodeEncodeError\<close>. For a printable locator it
  returns the empty frame when the locator is remote and the backend is not configured,
  when \<^verbatim>\<open>get_object\<close> raises (the backend cannot be reached), when the object of the
  locator is not there, when the locator is local and the file is not there or cannot be
  read, and when \<^verbatim>\<open>json.loads\<close> or \<^verbatim>\<open>pd.DataFrame\<close> raises on the text that was
  fetched, each time provided the message of the exception can be printed; when they do
  not raise, the function returns the frame that \<^verbatim>\<open>pd.DataFrame\<close> built, whatever its
  shape. The locator's scheme alone decides the tier: the result for a remote locator
  does not depend on the local files, and the result for a local locator does not depend
  on the remote backend.
\<close>

theorem load_data_from_storage_total:
  "(printable E p \<and> (\<forall>x. printable E (message E x)) \<longrightarrow>
      (\<exists>df. load_data_from_storage L E W p = Inr df)) \<and>
   (\<not> printable E p \<longrightarrow> load_data_from_storage L E W p = Inl UnicodeEncodeError) \<and>
   (printable E p \<and> startswith p ''s3://'' \<and>
    (\<not> s3_client W \<or> \<not> truthy (S3_BUCKET_NAME W)) \<longrightarrow>
      load_data_from_storage L E W p = Inr empty_frame) \<and>
   (printable E p \<and> startswith p ''s3://'' \<and> get_object_raises E = Some e \<and>
    printable E (message E e) \<longrightarrow>
      load_data_from_storage L E W p = Inr empty_frame) \<and>
   (printable E p \<and> startswith p ''s3://'' \<and> s3_location p = Inr (bucket, key) \<and>
    s3_objects W (bucket, key) = None \<and> get_object_raises E = None \<and>
    printable E (message E ClientError) \<longrightarrow>
      load_data_from_storage L E W p = Inr empty_frame) \<and>
   (printable E p \<and> startswith p ''s3://'' \<and> s3_location p = Inr (bucket, key) \<and>
    get_object E W bucket key = Inr content \<and> parse_frame L content = Inl e \<and>
    printable E (message E e) \<longrightarrow>
      load_data_from_storage L E W p = Inr empty_frame) \<and>
   (printable E p \<and> startswith p ''s3://'' \<and> s3_client W \<and> truthy (S3_BUCKET_NAME W) \<and>
    s3_location p = Inr (bucket, key) \<and> bucket \<noteq> [] \<and> key \<noteq> [] \<and>
    get_object E W bucket key = Inr content \<and> parse_frame L content = Inr df \<longrightarrow>
      load_data_from_storage L E W p = Inr df) \<and>
   (printable E p \<and> \<not> startswith p ''s3://'' \<and> files W p = None \<longrightarrow>
      load_data_from_storage L E W p = Inr empty_frame) \<and>
   (printable E p \<and> \<not> startswith p ''s3://'' \<and> read_raises E = Some e \<and>
    printable E (message E e) \<longrightarrow>
      load_data_from_storage L E W p = Inr empty_frame) \<and>
   (printable E p \<and> \<not> startswith p ''s3://'' \<and> read_file E W p = Inr content \<and>
    parse_frame L content = Inl e \<and> printable E (message E e) \<longrightarrow>
      load_data_from_storage L E W p = Inr empty_frame) \<and>
   (printable E p \<and> \<not> startswith p ''s3://'' \<and> read_file E W p = Inr content \<and>
    parse_frame L content = Inr df \<longrightarrow>
      load_data_from_storage L E W p = Inr df) \<and>
   (startswith p ''s3://'' \<longrightarrow>
      load_data_from_storage L (E\<lparr>read_raises := rr\<rparr>) (W\<lparr>files := fs\<rparr>) p
        = load_data_from_storage L E W p) \<and>
   (\<not> startswith p ''s3://'' \<longrightarrow>
      load_data_from_storage L (E\<lparr>get_object_raises := gr\<rparr>)
          (W\<lparr>s3_client := c, S3_BUCKET_NAME := bn, s3_objects := objs\<rparr>) p
        = load_data_from_storage L E W p)"
proof -
  have c0: "\<not> printable E p \<longrightarrow> load_data_from_storage L E W p = Inl UnicodeEncodeError"
    by (simp add: load_unprintable)
  have c1: "printable E p \<and> (\<forall>x. printable E (message E x)) \<longrightarrow>
      (\<exists>df. load_data_from_storage L E W p = Inr df)"
    by (simp add: load_returns)
  have c2: "printable E p \<and> startswith p ''s3://'' \<and>
      (\<not> s3_client W \<or> \<not> truthy (S3_BUCKET_NAME W)) \<longrightarrow>
      load_data_from_storage L E W p = Inr empty_frame"
    by (auto simp: load_s3_cases)
  have c3: "printable E p \<and> startswith p ''s3://'' \<and> get_object_raises E = Some e \<and>
      printable E (message E e) \<longrightarrow>
      load_data_from_storage L E W p = Inr empty_frame"
    using s3_location_total [of p]
    by (auto simp: load_s3_cases s3_attempt_def get_object_def caught_def)
  have c4: "printable E p \<and> startswith p ''s3://'' \<and> s3_location p = Inr (bucket, key) \<and>
    s3_objects W (bucket, key) = None \<and> get_object_raises E = None \<and>
    printable E (message E ClientError) \<longrightarrow>
      load_data_from_storage L E W p = Inr empty_frame"
    by (auto simp: load_s3_cases s3_attempt_def get_object_def caught_def)
  have c5: "printable E p \<and> startswith p ''s3://'' \<and> s3_location p = Inr (bucket, key) \<and>
    get_object E W bucket key = Inr content \<and> parse_frame L content = Inl e \<and>
    printable E (message E e) \<longrightarrow>
      load_data_from_storage L E W p = Inr empty_frame"
    by (auto simp: load_s3_cases s3_attempt_def caught_def)
  have c5b: "printable E p \<and> startswith p ''s3://'' \<and> s3_client W \<and>
    truthy (S3_BUCKET_NAME W) \<and>
    s3_location p = Inr (bucket, key) \<and> bucket \<noteq> [] \<and> key \<noteq> [] \<and>
    get_object E W bucket key = Inr content \<and> parse_frame L content = Inr df \<longrightarrow>
      load_data_from_storage L E W p = Inr df"
    by (auto simp: load_s3_cases s3_attempt_def)
  have c6: "printable E p \<and> \<not> startswith p ''s3://'' \<and> files W p = None \<longrightarrow>
      load_data_from_storage L E W p = Inr empty_frame"
    by (auto simp: load_local_cases)
  have c6b: "printable E p \<and> \<not> startswith p ''s3://'' \<and> read_raises E = Some e \<and>
      printable E (message E e) \<longrightarrow>
      load_data_from_storage L E W p = Inr empty_frame"
    by (auto simp: load_local_cases local_attempt_def read_file_def caught_def)
  have c7: "printable E p \<and> \<not> startswith p ''s3://'' \<and> read_file E W p = Inr content \<and>
      parse_frame L content = Inl e \<and> printable E (message E e) \<longrightarrow>
      load_data_from_storage L E W p = Inr empty_frame"
    by (auto simp: load_local_cases local_attempt_def caught_def)
  have c7b: "printable E p \<and> \<not> startswith p ''s3://'' \<and> read_file E W p = Inr content \<and>
      parse_frame L content = Inr df \<longrightarrow>
      load_data_from_storage L E W p = Inr df"
    by (auto simp: load_local_cases local_attempt_def read_file_def split: option.splits)
  have c8: "startswith p ''s3://'' \<longrightarrow>
      load_data_from_storage L (E\<lparr>read_raises := rr\<rparr>) (W\<lparr>files := fs\<rparr>) p
        = load_data_from_storage L E W p"
    by (simp add: load_ignores_files)
  have c9: "\<not> startswith p ''s3://'' \<longrightarrow>
      load_data_from_storage L (E\<lparr>get_object_raises := gr\<rparr>)
          (W\<lparr>s3_client := c, S3_BUCKET_NAME := bn, s3_objects := objs\<rparr>) p
        = load_data_from_storage L E W p"
    by (simp add: load_ignores_s3)
  show ?thesis
    by (intro conjI; fact c0 c1 c2 c3 c4 c5 c5b c6 c6b c7 c7b c8 c9)
qed

theorem load_data_from_storage_total_witness:
  "load_data_from_storage demo_libs quiet offline ''s3://insights/notes/today.txt''
     = Inr empty_frame \<and>
   load_data_from_storage demo_libs (quiet\<lparr>get_object_raises := Some ClientError\<rparr>) cluttered
       ''s3://insights/notes/today.txt'' = Inr empty_frame \<and>
   load_data_from_storage demo_libs quiet cloud ''s3://insights/notes/today.txt''
     = Inr empty_frame \<and>
   load_data_from_storage demo_libs quiet cluttered ''s3://insights/notes/today.txt''
     = Inr empty_frame \<and>
   load_data_from_storage demo_libs quiet cloud ''data/today.txt'' = Inr empty_frame \<and>
   load_data_from_storage demo_libs quiet cluttered ''data/today.txt'' = Inr empty_frame \<and>
   load_data_from_storage demo_libs quiet (cloud\<lparr>files := files cluttered\<rparr>)
       ''s3://insights/notes/today.txt''
     = load_data_from_storage demo_libs quiet cloud ''s3://insights/notes/today.txt'' \<and>
   load_data_from_storage demo_libs quiet (cluttered\<lparr>s3_client := False\<rparr>) ''data/today.txt''
     = load_data_from_storage demo_libs quiet cluttered ''data/today.txt'' \<and>
   load_data_from_storage demo_libs plain cloud [CHR 0xE9] = Inl UnicodeEncodeError \<and>
   load_data_from_storage demo_libs quiet numbered ''s3://insights/notes/numbers.json''
     = Inr numbers_frame \<and>
   load_data_from_storage demo_libs quiet numbered ''data/numbers.json'' = Inr numbers_frame \<and>
   load_data_from_storage demo_libs (quiet\<lparr>read_raises := Some OSError\<rparr>) cluttered
       ''data/today.txt'' = Inr empty_frame \<and>
   (\<exists>df. load_data_from_storage demo_libs quiet numbered ''data/numbers.json'' = Inr df)"
proof -
  let ?remote = "''s3://insights/notes/today.txt''"
  let ?local = "''data/today.txt''"
  let ?rnum = "''s3://insights/notes/numbers.json''"
  let ?lnum = "''data/numbers.json''"
  have pr: "printable quiet p" "printable (quiet\<lparr>get_object_raises := Some ClientError\<rparr>) p" for p
    by (simp_all add: printable_def quiet_def list_all_iff)
  have msg: "printable quiet (message quiet e)" for e
    by (rule pr)
  have msg2: "printable (quiet\<lparr>get_object_raises := Some ClientError\<rparr>)
                (message (quiet\<lparr>get_object_raises := Some ClientError\<rparr>) ClientError)"
    by (rule pr)
  have calm_get: "get_object_raises quiet = None"
    by (simp add: quiet_def)
  have pr3: "printable (quiet\<lparr>read_raises := Some OSError\<rparr>) q" for q
    by (simp add: printable_def quiet_def list_all_iff)
  have locked: "read_raises (quiet\<lparr>read_raises := Some OSError\<rparr>) = Some OSError"
    by simp
  have npr: "\<not> printable plain [CHR 0xE9]"
    by (simp add: printable_def plain_def isascii_def code_def)
  have s3: "startswith ?remote ''s3://''" and no_s3: "\<not> startswith ?local ''s3://''"
    and s3n: "startswith ?rnum ''s3://''" and no_s3n: "\<not> startswith ?lnum ''s3://''"
    by simp_all
  have loc: "s3_location ?remote = Inr (''insights'', ''notes/today.txt'')"
    by (simp add: s3_location_def replace_def)
  have locn: "s3_location ?rnum = Inr (''insights'', ''notes/numbers.json'')"
    by (simp add: s3_location_def replace_def)
  have bad: "parse_frame demo_libs ''not json'' = Inl JSONDecodeError"
    by (simp add: parse_frame_def demo_libs_def abc_json_def json_line_def)
  have off: "\<not> s3_client offline"
    by (simp add: offline_def)
  have on: "s3_client numbered" "truthy (S3_BUCKET_NAME numbered)"
    "''insights'' \<noteq> []" "''notes/numbers.json'' \<noteq> []"
    by (simp_all add: numbered_def cloud_def truthy_def)
  have down: "get_object_raises (quiet\<lparr>get_object_raises := Some ClientError\<rparr>)
                = Some ClientError"
    by simp
  have gone: "s3_objects cloud (''insights'', ''notes/today.txt'') = None"
    by (simp add: cloud_def)
  have got: "get_object quiet cluttered ''insights'' ''notes/today.txt'' = Inr ''not json''"
    by (simp add: get_object_def quiet_def cluttered_def cloud_def)
  have gotn: "get_object quiet numbered ''insights'' ''notes/numbers.json'' = Inr ''[1, 2, 3]''"
    by (simp add: get_object_def quiet_def numbered_def cloud_def)
  have nofile: "files cloud ?local = None"
    by (simp add: cloud_def)
  have rd: "read_file quiet cluttered ?local = Inr ''not json''"
    by (simp add: read_file_def quiet_def cluttered_def cloud_def)
  have rdn: "read_file quiet numbered ?lnum = Inr ''[1, 2, 3]''"
    by (simp add: read_file_def quiet_def numbered_def cloud_def)
  have q: "quiet\<lparr>read_raises := None\<rparr> = quiet" "quiet\<lparr>get_object_raises := None\<rparr> = quiet"
    by (simp_all add: quiet_def)
  have w: "cluttered\<lparr>s3_client := False, S3_BUCKET_NAME := S3_BUCKET_NAME cluttered,
                    s3_objects := s3_objects cluttered\<rparr> = cluttered\<lparr>s3_client := False\<rparr>"
    by simp
  from load_data_from_storage_total [where L = demo_libs and E = quiet and W = offline
      and p = ?remote] s3 off pr(1)
  have 1: "load_data_from_storage demo_libs quiet offline ?remote = Inr empty_frame"
    by simp
  from load_data_from_storage_total [where L = demo_libs
      and E = "quiet\<lparr>get_object_raises := Some ClientError\<rparr>" and W = cluttered and p = ?remote
      and e = ClientError]
    s3 down pr(2) msg2
  have 2: "load_data_from_storage demo_libs (quiet\<lparr>get_object_raises := Some ClientError\<rparr>)
             cluttered ?remote = Inr empty_frame"
    by simp
  from load_data_from_storage_total [where L = demo_libs and E = quiet and W = cloud
      and p = ?remote and bucket = "''insights''" and key = "''notes/today.txt''"] s3 loc gone
    pr(1) calm_get msg
  have 3: "load_data_from_storage demo_libs quiet cloud ?remote = Inr empty_frame"
    by simp
  from load_data_from_storage_total [where L = demo_libs and E = quiet and W = cluttered
      and p = ?remote and bucket = "''insights''" and key = "''notes/today.txt''"
      and content = "''not json''" and e = JSONDecodeError] s3 loc got bad pr(1) msg
  have 4: "load_data_from_storage demo_libs quiet cluttered ?remote = Inr empty_frame"
    by simp
  from load_data_from_storage_total [where L = demo_libs and E = quiet and W = cloud
      and p = ?local] no_s3 nofile pr(1)
  have 5: "load_data_from_storage demo_libs quiet cloud ?local = Inr empty_frame"
    by simp
  from load_data_from_storage_total [where L = demo_libs and E = quiet and W = cluttered
      and p = ?local and content = "''not json''" and e = JSONDecodeError] no_s3 rd bad pr(1) msg
  have 6: "load_data_from_storage demo_libs quiet cluttered ?local = Inr empty_frame"
    by simp
  from load_data_from_storage_total [where L = demo_libs and E = quiet and W = cloud
      and p = ?remote and rr = None and fs = "files cluttered"] s3
  have 7: "load_data_from_storage demo_libs quiet (cloud\<lparr>files := files cluttered\<rparr>) ?remote
             = load_data_from_storage demo_libs quiet cloud ?remote"
    by (simp add: q)
  from load_data_from_storage_total [where L = demo_libs and E = quiet and W = cluttered
      and p = ?local and gr = None and c = False and bn = "S3_BUCKET_NAME cluttered"
      and objs = "s3_objects cluttered"] no_s3
  have 8: "load_data_from_storage demo_libs quiet (cluttered\<lparr>s3_client := False\<rparr>) ?local
             = load_data_from_storage demo_libs quiet cluttered ?local"
    by (simp add: q)
  from load_data_from_storage_total [where L = demo_libs and E = plain and W = cloud
      and p = "[CHR 0xE9]"] npr
  have 9: "load_data_from_storage demo_libs plain cloud [CHR 0xE9] = Inl UnicodeEncodeError"
    by simp
  from load_data_from_storage_total [where L = demo_libs and E = quiet and W = numbered
      and p = ?rnum and bucket = "''insights''" and key = "''notes/numbers.json''"
      and content = "''[1, 2, 3]''" and df = numbers_frame]
    s3n locn on gotn numbers_frame_parsed pr(1)
  have 10: "load_data_from_storage demo_libs quiet numbered ?rnum = Inr numbers_frame"
    by simp
  from load_data_from_storage_total [where L = demo_libs and E = quiet and W = numbered
      and p = ?lnum and content = "''[1, 2, 3]''" and df = numbers_frame]
    no_s3n rdn numbers_frame_parsed pr(1)
  have 11: "load_data_from_storage demo_libs quiet numbered ?lnum = Inr numbers_frame"
    by simp
  from load_data_from_storage_total [where L = demo_libs
      and E = "quiet\<lparr>read_raises := Some OSError\<rparr>" and W = cluttered and p = ?local
      and e = OSError]
    no_s3 locked pr3
  have 12: "load_data_from_storage demo_libs (quiet\<lparr>read_raises := Some OSError\<rparr>) cluttered
              ?local = Inr empty_frame"
    by simp
  from load_data_from_storage_total [where L = demo_libs and E = quiet and W = numbered
      and p = ?lnum] pr(1) msg
  have 13: "\<exists>df. load_data_from_storage demo_libs quiet numbered ?lnum = Inr df"
    by simp
  from 1 2 3 4 5 6 7 8 9 10 11 12 13 show ?thesis by blast
qed




lemma rust_lang_key: "sanitize_for_filename ''Rust lang'' = ''rust_lang''"
  by code_simp

lemma demo_path:
  "timestamp E = ''20240101120000'' \<Longrightarrow>
   os_path_join DATA_DIR (base_filename E ''github'' ''Rust lang'')
     = ''data/github_rust_lang_20240101120000.json''"
  by (simp add: os_path_join_def DATA_DIR_def base_filename_def rust_lang_key)

lemma demo_encode: "json_encode demo_libs abc_data = (abc_json, None)"
  by (simp add: demo_libs_def)




lemma startswith_append: "startswith (p @ s) p"
  by (induction p) auto

lemma startswith_set: "startswith s p \<Longrightarrow> set p \<subseteq> set s"
  by (induction s p rule: startswith.induct) auto

lemma replace_from_no_colon:
  "CHR '':'' \<notin> set s \<Longrightarrow> replace_from ''s3://'' new 0 s = s"
proof (induction s)
  case Nil
  then show ?case by simp
next
  case (Cons c cs)
  have "\<not> startswith (c # cs) ''s3://''"
  proof
    assume "startswith (c # cs) ''s3://''"
    then have "set ''s3://'' \<subseteq> set (c # cs)" by (rule startswith_set)
    with Cons.prems show False by auto
  qed
  then have "replace_from ''s3://'' new 0 (c # cs) = c # replace_from ''s3://'' new 0 cs"
    by (simp del: startswith.simps)
  with Cons show ?case by simp
qed

lemma replace_scheme:
  "CHR '':'' \<notin> set rest \<Longrightarrow> replace (''s3://'' @ rest) ''s3://'' [] = rest"
  by (simp add: replace_def replace_from_no_colon)

lemma split_append: "d \<notin> set b \<Longrightarrow> split (b @ d # s) d = b # split s d"
  by (induction b) auto

lemma join_Cons_Cons: "join sep ((c # p) # ps) = c # join sep (p # ps)"
  by (cases ps) auto

lemma join_split: "join [d] (split s d) = s"
proof (induction s)
  case Nil
  then show ?case by simp
next
  case (Cons c cs)
  obtain p ps where sp: "split cs d = p # ps"
    using split_not_Nil [of cs d] by (cases "split cs d") auto
  with Cons show ?case
    by (auto simp: join_Cons_Cons)
qed

lemma s3_location_uri:
  assumes "CHR '':'' \<notin> set bucket" and "CHR ''/'' \<notin> set bucket" and "CHR '':'' \<notin> set key"
  shows "s3_location (''s3://'' @ bucket @ ''/'' @ key) = Inr (bucket, key)"
proof -
  have "CHR '':'' \<notin> set (bucket @ ''/'' @ key)"
    using assms by simp
  then have "replace (''s3://'' @ bucket @ ''/'' @ key) ''s3://'' [] = bucket @ ''/'' @ key"
    by (rule replace_scheme)
  moreover have "split (bucket @ ''/'' @ key) CHR ''/'' = bucket # split key CHR ''/''"
    using split_append [OF assms(2), of key] by simp
  ultimately show ?thesis
    using join_split [of "CHR ''/''" key] by (simp add: s3_location_def)
qed

lemma sanitize_no_colon: "CHR '':'' \<notin> set (sanitize_for_filename q)"
proof
  assume "CHR '':'' \<in> set (sanitize_for_filename q)"
  from sanitize_chars [OF this] obtain d where "isalnum d" and "CHR '':'' = lower_char d"
    by auto
  then have "code (lower_char d) = code CHR '':''" and "isalnum d"
    by simp_all
  moreover have "code CHR '':'' = 58"
    by (simp add: code_def)
  ultimately have "code (lower_char d) = 58" and "isalnum d"
    by simp_all
  then show False
    unfolding code_lower_char isalnum_def Let_def by (auto split: if_splits)
qed

lemma s3_key_no_colon:
  assumes "CHR '':'' \<notin> set source_type" and "CHR '':'' \<notin> set (timestamp E)"
  shows "CHR '':'' \<notin> set (s3_key E source_type q)"
  using assms sanitize_no_colon [of q] by (simp add: s3_key_def base_filename_def)

lemma s3_key_not_Nil: "s3_key E source_type q \<noteq> []"
  by (simp add: s3_key_def)

lemma local_path_not_s3: "\<not> startswith (os_path_join DATA_DIR b) ''s3://''"
  by (cases b) (auto simp: os_path_join_def DATA_DIR_def)

lemma as_records_dicts: "as_records (PList (map PDict recs)) = Some recs"
  by (simp add: as_records_def list_all_iff comp_def)

lemma DataFrame_records:
  "kept_as_written recs \<Longrightarrow>
   DataFrame L (PList (map PDict recs)) = Inr (frame_of_records recs)"
  by (simp add: DataFrame_def as_records_dicts)

lemma cells_of_record:
  "distinct (map fst d) \<Longrightarrow> map (\<lambda>c. (c, cell d c)) (map fst d) = d"
proof (induction d)
  case Nil
  then show ?case by simp
next
  case (Cons kv d)
  obtain k v where kv: "kv = (k, v)" by (cases kv)
  with Cons.prems have k: "k \<notin> fst ` set d" and dist: "distinct (map fst d)"
    by auto
  have "map (\<lambda>c. (c, cell ((k, v) # d) c)) (map fst d) = map (\<lambda>c. (c, cell d c)) (map fst d)"
    using k by (auto simp: cell_def)
  with Cons.IH [OF dist] kv show ?case
    by (simp add: cell_def)
qed

lemma first_seen_distinct: "distinct ks \<Longrightarrow> first_seen (ks @ rest) = ks @ filter (\<lambda>x. x \<notin> set ks) (first_seen rest)"
proof (induction ks)
  case Nil
  then show ?case by simp
next
  case (Cons k ks)
  then have "filter (\<lambda>x. x \<noteq> k) ks = ks"
    by (auto simp: filter_id_conv)
  with Cons show ?case
    by (auto simp: conj_commute)
qed

lemma first_seen_subset: "set (first_seen ks) \<subseteq> set ks"
  by (induction ks) auto

lemma first_seen_uniform:
  assumes "\<forall>d\<in>set recs. map fst d = ks" and "distinct ks" and "recs \<noteq> []"
  shows "first_seen (concat (map (map fst) recs)) = ks"
proof -
  from assms(3) obtain r rs where recs: "recs = r # rs" by (cases recs) auto
  with assms(1) have r: "map fst r = ks" and rs: "\<forall>d\<in>set rs. map fst d = ks"
    by auto
  from rs have "set (concat (map (map fst) rs)) \<subseteq> set ks"
    by auto
  with first_seen_subset have "set (first_seen (concat (map (map fst) rs))) \<subseteq> set ks"
    by blast
  then have "filter (\<lambda>x. x \<notin> set ks) (first_seen (concat (map (map fst) rs))) = []"
    by (auto simp: filter_empty_conv)
  with first_seen_distinct [OF assms(2), of "concat (map (map fst) rs)"] recs r
  show ?thesis by simp
qed

lemma frame_of_uniform_records:
  assumes "\<forall>d\<in>set recs. map fst d = ks" and "distinct ks"
  shows "rows (frame_of_records recs) = recs"
proof (cases "recs = []")
  case True
  then show ?thesis by (simp add: frame_of_records_def)
next
  case False
  from first_seen_uniform [OF assms False]
  have "rows (frame_of_records recs) = map (\<lambda>d. map (\<lambda>c. (c, cell d c)) ks) recs"
    by (simp add: frame_of_records_def)
  also have "\<dots> = map (\<lambda>d. d) recs"
  proof (rule map_cong [OF refl])
    fix d assume "d \<in> set recs"
    with assms have "map fst d = ks" "distinct (map fst d)" by auto
    with cells_of_record [of d] show "map (\<lambda>c. (c, cell d c)) ks = d" by simp
  qed
  finally show ?thesis by simp
qed

lemma save_Some_cases:
  assumes "save_data_to_storage L E W d source_type q = (W', Some loc)"
  obtains (remote) bucket where "s3_client W" "S3_BUCKET_NAME W = Some bucket" "bucket \<noteq> []"
      "snd (json_encode L d) = None"
      "W' = W\<lparr>s3_objects := (s3_objects W)((bucket, s3_key E source_type q) \<mapsto> fst (json_encode L d))\<rparr>"
      "loc = ''s3://'' @ bucket @ ''/'' @ s3_key E source_type q"
  | (local) "snd (json_encode L d) = None"
      "W' = W\<lparr>files := (files W)(loc \<mapsto> fst (json_encode L d))\<rparr>"
      "loc = os_path_join DATA_DIR (base_filename E source_type q)"
proof -
  let ?path = "os_path_join DATA_DIR (base_filename E source_type q)"
  have loc: "snd (json_encode L d) = None \<and>
             W' = W\<lparr>files := (files W)(loc \<mapsto> fst (json_encode L d))\<rparr> \<and> loc = ?path"
    if "local_save L E W d ?path = (W', Some loc)"
    using that
    by (cases "json_encode L d")
       (auto simp: local_save_def Let_def split: option.splits if_splits)
  from assms consider
    (a) bucket body where "s3_client W" "S3_BUCKET_NAME W = Some bucket" "bucket \<noteq> []"
        "json_dumps L d = Inr body" "put_object_raises E = None"
        "W' = W\<lparr>s3_objects := (s3_objects W)((bucket, s3_key E source_type q) \<mapsto> body)\<rparr>"
        "loc = ''s3://'' @ bucket @ ''/'' @ s3_key E source_type q"
    | (b) "local_save L E W d ?path = (W', Some loc)"
    by (auto simp: save_data_to_storage_def Let_def split: option.splits if_splits sum.splits)
  then show ?thesis
  proof cases
    case a
    from a(4) have "snd (json_encode L d) = None" "fst (json_encode L d) = body"
      by (cases "json_encode L d"; auto simp: json_dumps_def split: option.splits)+
    with a show ?thesis by (auto intro: remote)
  next
    case b
    from loc [OF b] show ?thesis by (auto intro: local)
  qed
qed

lemma schema_column_kept:
  assumes "\<forall>d\<in>set recs. conforms d schema \<and> int64_row d" and "c \<in> set (map fst schema)"
  shows "kept_column (map (\<lambda>d. cell d c) recs)"
proof -
  from assms(2) obtain t where t: "map_of schema c = Some t"
    by (metis map_of_eq_None_iff not_Some_eq set_map)
  have typed: "has_type (cell d c) t \<and> (\<forall>k. cell d c = PInt k \<longrightarrow> int64 k)"
    if "d \<in> set recs" for d
  proof -
    from that assms(1) have cf: "conforms d schema" and bits: "int64_row d"
      by auto
    from conforms_lookup [OF cf t] obtain v where v: "map_of d c = Some v" "has_type v t"
      by blast
    from v(1) have "v \<in> set (map snd d)"
      by (auto dest!: map_of_SomeD intro: rev_image_eqI)
    with bits have "\<forall>k. v = PInt k \<longrightarrow> int64 k"
      by (auto simp: int64_row_def list_all_iff)
    with v show ?thesis
      by (simp add: cell_def)
  qed
  show ?thesis
  proof (cases t)
    case TInt
    have "is_int64 (cell d c)" if "d \<in> set recs" for d
      using typed [OF that] TInt by (cases "cell d c") (auto simp: is_int64_def)
    then show ?thesis
      by (simp add: kept_column_def list_all_iff)
  next
    case TFloat
    have "case cell d c of PFloat x \<Rightarrow> True | _ \<Rightarrow> False" if "d \<in> set recs" for d
      using typed [OF that] TFloat by (cases "cell d c") auto
    then show ?thesis
      by (simp add: kept_column_def list_all_iff)
  next
    case TStr
    have "case cell d c of
            PNone \<Rightarrow> True | PStr s \<Rightarrow> True | PList xs \<Rightarrow> True | PDict e \<Rightarrow> True | _ \<Rightarrow> False"
      if "d \<in> set recs" for d
      using typed [OF that] TStr by (cases "cell d c") auto
    then show ?thesis
      by (simp add: kept_column_def list_all_iff)
  next
    case TOptStr
    have "case cell d c of
            PNone \<Rightarrow> True | PStr s \<Rightarrow> True | PList xs \<Rightarrow> True | PDict e \<Rightarrow> True | _ \<Rightarrow> False"
      if "d \<in> set recs" for d
      using typed [OF that] TOptStr by (cases "cell d c") auto
    then show ?thesis
      by (simp add: kept_column_def list_all_iff)
  next
    case TStrList
    have "case cell d c of
            PNone \<Rightarrow> True | PStr s \<Rightarrow> True | PList xs \<Rightarrow> True | PDict e \<Rightarrow> True | _ \<Rightarrow> False"
      if "d \<in> set recs" for d
      using typed [OF that] TStrList by (cases "cell d c") auto
    then show ?thesis
      by (simp add: kept_column_def list_all_iff)
  qed
qed

lemma schema_records_kept:
  assumes "\<forall>d\<in>set recs. conforms d schema \<and> int64_row d" and "distinct (map fst schema)"
  shows "kept_as_written recs"
proof (cases "recs = []")
  case True
  then show ?thesis by (simp add: kept_as_written_def)
next
  case False
  from assms(1) have "\<forall>d\<in>set recs. map fst d = map fst schema"
    by (simp add: conforms_def)
  from first_seen_uniform [OF this assms(2) False]
  show ?thesis
    using schema_column_kept [OF assms(1)] by (simp add: kept_as_written_def list_all_iff)
qed

lemma frame_of_schema_records:
  assumes "\<forall>d\<in>set recs. conforms d schema \<and> int64_row d" and "distinct (map fst schema)"
  shows "frame_of_records recs
           = \<lparr>columns = (if recs = [] then [] else map fst schema), rows = recs\<rparr>"
proof -
  from assms(1) have uni: "\<forall>d\<in>set recs. map fst d = map fst schema"
    by (simp add: conforms_def)
  have "columns (frame_of_records recs) = (if recs = [] then [] else map fst schema)"
    using first_seen_uniform [OF uni assms(2)] by (simp add: frame_of_records_def)
  moreover have "rows (frame_of_records recs) = recs"
    using uni assms(2) by (rule frame_of_uniform_records)
  ultimately show ?thesis
    by simp
qed

text \<open>
  C1. Whenever \<^verbatim>\<open>save_data_to_storage\<close> returns a locator for a list of records of one
  field set, loading that locator in the world the call left behind yields a frame whose
  rows are the records themselves, with their values and in their order, and whose
  columns are the fields. This holds for both tiers. The records are those of a source
  type: all have the fields of one schema in its order, each field holds a value of its
  type (an integer, a float, a string, a string or \<^verbatim>\<open>None\<close>, a list of strings), and the
  integers are 64-bit integers. It is stated for a load during which the backend can be
  reached (neither \<^verbatim>\<open>get_object\<close> nor the reading of the file raises) and the console
  can print the locator, for a \<^verbatim>\<open>json\<close> that reads back what it wrote for this list,
  and for names in which the locator can be taken apart again: no colon in the source
  type (\<^verbatim>\<open>github\<close>, \<^verbatim>\<open>reddit\<close>) or the time stamp (14 digits), no colon or slash in the
  bucket name.
\<close>

theorem load_after_save:
  assumes "save_data_to_storage L E W (PList (map PDict recs)) source_type q = (W', Some loc)"
    and "json_loads L (fst (json_encode L (PList (map PDict recs)))) = Inr (PList (map PDict recs))"
    and "get_object_raises E' = None" and "read_raises E' = None"
    and "printable E' loc"
    and "CHR '':'' \<notin> set source_type \<union> set (timestamp E)"
    and "\<forall>b. S3_BUCKET_NAME W = Some b \<longrightarrow> CHR '':'' \<notin> set b \<and> CHR ''/'' \<notin> set b"
    and "\<forall>d\<in>set recs. conforms d schema \<and> int64_row d"
    and "distinct (map fst schema)"
  shows "load_data_from_storage L E' W' loc
           = Inr \<lparr>columns = (if recs = [] then [] else map fst schema), rows = recs\<rparr>"
proof -
  let ?d = "PList (map PDict recs)"
  let ?txt = "fst (json_encode L ?d)"
  have kept: "kept_as_written recs"
    using assms(8,9) by (rule schema_records_kept)
  have parse: "parse_frame L ?txt = Inr (frame_of_records recs)"
    using assms(2) by (simp add: parse_frame_def DataFrame_records [OF kept])
  from assms(1) have "load_data_from_storage L E' W' loc = Inr (frame_of_records recs)"
  proof (cases rule: save_Some_cases)
    case (remote bucket)
    let ?key = "s3_key E source_type q"
    from assms(6) have kc: "CHR '':'' \<notin> set ?key"
      by (simp add: s3_key_no_colon)
    from assms(7) remote(2) have bc: "CHR '':'' \<notin> set bucket" "CHR ''/'' \<notin> set bucket"
      by auto
    have place: "s3_location loc = Inr (bucket, ?key)"
      unfolding remote(6) by (rule s3_location_uri [OF bc kc])
    have "get_object E' W' bucket ?key = Inr ?txt"
      using assms(3) by (simp add: get_object_def remote(5))
    with place parse remote(3) have "s3_attempt L E' W' loc = Inr (frame_of_records recs)"
      by (simp add: s3_attempt_def s3_key_not_Nil)
    moreover have "startswith loc ''s3://''"
      unfolding remote(6) by (rule startswith_append)
    moreover have "s3_client W'" "truthy (S3_BUCKET_NAME W')"
      using remote(1-3) by (simp_all add: remote(5) truthy_def)
    ultimately show ?thesis
      by (simp add: load_s3_cases [OF assms(5)])
  next
    case local
    have "read_file E' W' loc = Inr ?txt"
      using assms(4) by (simp add: read_file_def local(2))
    with parse have "local_attempt L E' W' loc = Inr (frame_of_records recs)"
      by (simp add: local_attempt_def)
    moreover have "\<not> startswith loc ''s3://''"
      unfolding local(3) by (rule local_path_not_s3)
    moreover have "files W' loc = Some ?txt"
      by (simp add: local(2))
    ultimately show ?thesis
      by (simp add: load_local_cases [OF assms(5)])
  qed
  then show ?thesis
    by (simp add: frame_of_schema_records [OF assms(8,9)])
qed

lemma demo_key:
  "timestamp E = ''20240101120000'' \<Longrightarrow>
   s3_key E ''github'' ''Rust lang'' = ''github_data/github_rust_lang_20240101120000.json''"
  by (simp add: s3_key_def base_filename_def rust_lang_key)

theorem load_after_save_witness:
  "snd (save_data_to_storage demo_libs calm cloud abc_data ''github'' ''Rust lang'')
     = Some ''s3://insights/github_data/github_rust_lang_20240101120000.json'' \<and>
   load_data_from_storage demo_libs quiet
       (fst (save_data_to_storage demo_libs calm cloud abc_data ''github'' ''Rust lang''))
       ''s3://insights/github_data/github_rust_lang_20240101120000.json''
     = Inr abc_frame \<and>
   snd (save_data_to_storage demo_libs calm offline abc_data ''github'' ''Rust lang'')
     = Some ''data/github_rust_lang_20240101120000.json'' \<and>
   load_data_from_storage demo_libs quiet
       (fst (save_data_to_storage demo_libs calm offline abc_data ''github'' ''Rust lang''))
       ''data/github_rust_lang_20240101120000.json''
     = Inr abc_frame \<and>
   rows abc_frame = abc_records"
proof -
  let ?remote = "''s3://insights/github_data/github_rust_lang_20240101120000.json''"
  let ?local = "''data/github_rust_lang_20240101120000.json''"
  let ?W1 = "fst (save_data_to_storage demo_libs calm cloud abc_data ''github'' ''Rust lang'')"
  let ?W2 = "fst (save_data_to_storage demo_libs calm offline abc_data ''github'' ''Rust lang'')"
  have ts: "timestamp calm = ''20240101120000''"
    by (simp add: calm_def)
  have ev: "put_object_raises calm = None" "open_raises calm = None" "write_room calm = None"
    by (simp_all add: calm_def)
  have s1: "snd (save_data_to_storage demo_libs calm cloud abc_data ''github'' ''Rust lang'')
              = Some ?remote"
    by (simp add: save_data_to_storage_def Let_def cloud_def json_dumps_def demo_encode
        demo_key [OF ts] ev)
  have s2: "snd (save_data_to_storage demo_libs calm offline abc_data ''github'' ''Rust lang'')
              = Some ?local"
    by (simp add: save_data_to_storage_def Let_def offline_def cloud_def local_save_def
        demo_encode demo_path [OF ts] ev)
  have saved1: "save_data_to_storage demo_libs calm cloud (PList (map PDict abc_records))
                  ''github'' ''Rust lang'' = (?W1, Some ?remote)"
    using s1 by (simp add: abc_data_def prod_eq_iff)
  have saved2: "save_data_to_storage demo_libs calm offline (PList (map PDict abc_records))
                  ''github'' ''Rust lang'' = (?W2, Some ?local)"
    using s2 by (simp add: abc_data_def prod_eq_iff)
  have codec: "json_loads demo_libs (fst (json_encode demo_libs (PList (map PDict abc_records))))
                 = Inr (PList (map PDict abc_records))"
    using demo_encode by (simp add: abc_data_def demo_libs_def)
  have reach: "get_object_raises quiet = None" "read_raises quiet = None"
    by (simp_all add: quiet_def)
  have pr: "printable quiet p" for p
    by (simp add: printable_def quiet_def list_all_iff)
  have names: "CHR '':'' \<notin> set ''github'' \<union> set (timestamp calm)"
    by (simp add: calm_def)
  have b1: "\<forall>b. S3_BUCKET_NAME cloud = Some b \<longrightarrow> CHR '':'' \<notin> set b \<and> CHR ''/'' \<notin> set b"
    by (simp add: cloud_def)
  have b2: "\<forall>b. S3_BUCKET_NAME offline = Some b \<longrightarrow> CHR '':'' \<notin> set b \<and> CHR ''/'' \<notin> set b"
    by (simp add: offline_def)
  have sch: "\<forall>d\<in>set abc_records. conforms d abc_schema \<and> int64_row d"
    by (simp add: abc_records_def abc_schema_def conforms_def int64_row_def int64_def)
  have dist: "distinct (map fst abc_schema)"
    by (simp add: abc_schema_def)
  have fr: "\<lparr>columns = (if abc_records = [] then [] else map fst abc_schema),
             rows = abc_records\<rparr> = abc_frame"
    by (simp add: abc_frame_def abc_records_def abc_schema_def)
  from load_after_save [OF saved1 codec reach pr names b1 sch dist] fr
  have 1: "load_data_from_storage demo_libs quiet ?W1 ?remote = Inr abc_frame"
    by simp
  from load_after_save [OF saved2 codec reach pr names b2 sch dist] fr
  have 2: "load_data_from_storage demo_libs quiet ?W2 ?local = Inr abc_frame"
    by simp
  have 3: "rows abc_frame = abc_records"
    by (simp add: abc_frame_def)
  from s1 s2 1 2 3 show ?thesis by blast
qed

end
